theory Spec2Isabelle
  imports Main
begin

section \<open>Go values the package works with\<close>

text \<open>
  A Go \<open>error\<close> value. \<open>ErrorString\<close> is what \<open>errors.New\<close> and \<open>fmt.Errorf\<close> build, and
  stands for the errors of the operating system as well; \<open>NumError\<close> is what the
  \<open>strconv\<close> package returns (function, input, cause); \<open>OpError\<close> is what the \<open>net\<close> package
  wraps a failure in (operation, cause).
\<close>

datatype error =
    ErrorString string
  | NumError string string error
  | OpError string error

datatype signal = SIGINT | SIGTERM | SIGQUIT | SIGUSR2

text \<open>What \<open>%s\<close> prints for a signal (\<open>syscall.Signal.String\<close>).\<close>

fun signal_String :: "signal \<Rightarrow> string" where
  "signal_String SIGINT = ''interrupt''"
| "signal_String SIGTERM = ''terminated''"
| "signal_String SIGQUIT = ''quit''"
| "signal_String SIGUSR2 = ''user defined signal 2''"

text \<open>An \<open>*os.Process\<close> that is not nil; a nil pointer is \<open>None\<close> of \<open>process option\<close>.\<close>

datatype process = Process (Pid: int)

text \<open>A call either returns or panics (with the runtime's message).\<close>

datatype 'a outcome = Return 'a | Panic string

subsection \<open>Decimal text of an integer: \<open>%d\<close> and \<open>strconv.Atoi\<close>\<close>

definition digit_char :: "nat \<Rightarrow> char" where
  "digit_char d = ''0123456789'' ! d"

definition is_digit :: "char \<Rightarrow> bool" where
  "is_digit c = (c \<in> set ''0123456789'')"

definition digit_val :: "char \<Rightarrow> nat" where
  "digit_val c = of_char c - 48"

fun nat_digits :: "nat \<Rightarrow> string" where
  "nat_digits n = (if n < 10 then [digit_char n] else nat_digits (n div 10) @ [digit_char (n mod 10)])"

declare nat_digits.simps [simp del]

text \<open>\<open>fmt.Sprintf("%d", i)\<close>.\<close>

definition itoa :: "int \<Rightarrow> string" where
  "itoa i = (if i < 0 then CHR ''-'' # nat_digits (nat (- i)) else nat_digits (nat i))"

definition ErrSyntax :: error where
  "ErrSyntax = ErrorString ''invalid syntax''"

definition ErrRange :: error where
  "ErrRange = ErrorString ''value out of range''"

text \<open>
  The digit loop of \<open>strconv.ParseUint\<close> in base 10 at 64 bits: a byte that is no digit is
  a syntax error, a value beyond \<open>2^64 - 1\<close> a range error, whichever comes first.
\<close>

fun parse_digits :: "nat \<Rightarrow> string \<Rightarrow> error + nat" where
  "parse_digits n [] = Inr n"
| "parse_digits n (c # cs) =
     (if \<not> is_digit c then Inl ErrSyntax
      else if n * 10 + digit_val c > 2 ^ 64 - 1 then Inl ErrRange
      else parse_digits (n * 10 + digit_val c) cs)"

text \<open>
  \<open>strconv.Atoi\<close> on a 64-bit platform: an optional sign, at least one decimal digit,
  nothing else, and a value of the range of \<open>int\<close>.
\<close>

definition Atoi :: "string \<Rightarrow> error + int" where
  "Atoi s =
     (let neg = (s \<noteq> [] \<and> hd s = CHR ''-'');
          ds = (if s \<noteq> [] \<and> (hd s = CHR ''-'' \<or> hd s = CHR ''+'') then tl s else s)
      in if ds = [] then Inl (NumError ''Atoi'' s ErrSyntax)
         else (case parse_digits 0 ds of
                 Inl e \<Rightarrow> Inl (NumError ''Atoi'' s e)
               | Inr un \<Rightarrow>
                   if \<not> neg \<and> un \<ge> 2 ^ 63 then Inl (NumError ''Atoi'' s ErrRange)
                   else if neg \<and> un > 2 ^ 63 then Inl (NumError ''Atoi'' s ErrRange)
                   else Inr (if neg then - int un else int un)))"

section \<open>Environment protocol\<close>

text \<open>
  The names of the handshake variables. The file that declares the constants
  \<open>envPrefix\<close>, \<open>envPPID\<close>, \<open>envCPUCore\<close> and \<open>envPrevPPID\<close> is not among the sources, so
  every function that uses them takes them as a parameter.
\<close>

record names =
  envPrefix :: string
  envPPID :: string
  envCPUCore :: string
  envPrevPPID :: string

text \<open>\<open>strings.HasPrefix\<close>.\<close>

definition HasPrefix :: "string \<Rightarrow> string \<Rightarrow> bool" where
  "HasPrefix s p = (length s \<ge> length p \<and> take (length p) s = p)"

text \<open>
  The names are well formed when each is a non-empty variable name (no \<open>=\<close>) that starts
  with the prefix, and the three are different names.
\<close>

definition wf_names :: "names \<Rightarrow> bool" where
  "wf_names N =
     (list_all (\<lambda>k. k \<noteq> [] \<and> CHR ''='' \<notin> set k \<and> HasPrefix k (envPrefix N))
        [envPPID N, envCPUCore N, envPrevPPID N]
      \<and> distinct [envPPID N, envCPUCore N, envPrevPPID N])"

text \<open>
  The process environment is the list of \<open>key=value\<close> strings of \<open>os.Environ\<close>.
  \<open>os.Getenv\<close> returns the value of the first entry with the key, and the empty string
  when there is none (or the key is empty).
\<close>

definition entry_key :: "string \<Rightarrow> string option" where
  "entry_key s = (if CHR ''='' \<in> set s then Some (takeWhile (\<lambda>c. c \<noteq> CHR ''='') s) else None)"

definition entry_value :: "string \<Rightarrow> string" where
  "entry_value s = drop 1 (dropWhile (\<lambda>c. c \<noteq> CHR ''='') s)"

fun Getenv :: "string list \<Rightarrow> string \<Rightarrow> string" where
  "Getenv [] key = []"
| "Getenv (s # envs) key =
     (if key \<noteq> [] \<and> entry_key s = Some key then entry_value s else Getenv envs key)"

text \<open>The environment has an entry for the variable, whatever its value.\<close>

definition token_present :: "string list \<Rightarrow> string \<Rightarrow> bool" where
  "token_present environ key = (Some key \<in> set (map entry_key environ))"

text \<open>
  The package-level variables \<open>pid\<close>, \<open>isMainProcess\<close> and \<open>workerCpuCore\<close>. They are
  initialised once, when the package is loaded, from the environment of that moment,
  and no function of the package assigns them: every function below reads the record and
  none returns a changed one.
\<close>

record globals =
  pid :: int
  isMainProcess :: bool
  workerCpuCore :: string

definition init_globals :: "names \<Rightarrow> int \<Rightarrow> string list \<Rightarrow> globals" where
  "init_globals N p environ =
     \<lparr> pid = p,
       isMainProcess = (Getenv environ (envPPID N) = []),
       workerCpuCore = Getenv environ (envCPUCore N) \<rparr>"

definition IsMainProcess :: "globals \<Rightarrow> bool" where
  "IsMainProcess g = isMainProcess g"

definition GetWorkerCPUCoreNum :: "globals \<Rightarrow> string" where
  "GetWorkerCPUCoreNum g = (if isMainProcess g then ''main process'' else workerCpuCore g)"

section \<open>The operating system, as the package sees it\<close>

text \<open>
  Everything outside the process is a parameter of the model. The calls of \<open>forkProcess\<close>
  are numbered from 0 in the order in which the process makes them, so that each call can
  succeed or fail by itself. \<open>Wait\<close> is \<open>None\<close> for a process whose exit is never reported:
  then \<open>p.Wait()\<close> does not return.
\<close>

datatype listener = Listener (Addr: string)

record sock =
  rawControl :: "string option"
  setReuseAddr :: "string option"
  setReusePort :: "string option"
  bind :: "error + listener"

record os =
  Environ :: "string list"
  LookPath :: "nat \<Rightarrow> error + string"
  Getwd :: "nat \<Rightarrow> error + string"
  StartProcess :: "nat \<Rightarrow> string \<Rightarrow> string \<Rightarrow> string list \<Rightarrow> error + process"
  NumCPU :: nat
  Signal :: "process \<Rightarrow> signal \<Rightarrow> error option"
  Wait :: "process \<Rightarrow> (error + string) option"
  FindProcess :: "int \<Rightarrow> error + process"
  SetAffinity :: "int \<Rightarrow> error option"
  socket :: sock

text \<open>
  What the process does, in order: the calls it makes to the outside and the lines it logs.
  A log line is kept as the format of the source with its arguments (the final newline of
  the format is left out).
\<close>

datatype arg = AInt int | AStr string | AErr error | ASig signal | ANil

datatype event =
    EvStartProcess string string "string list"
  | EvSignal process signal
  | EvWait process
  | EvSleep nat
  | EvFindProcess int
  | EvHook string
  | EvSetAffinity int
  | EvGOMAXPROCS nat
  | EvListen string string
  | EvServe listener
  | EvServeTLS listener
  | EvShutdown
  | EvGracefulStop
  | EvAccept
  | EvHandler string
  | EvClose listener
  | Printf string "arg list"
  | Println string

text \<open>
  A goroutine started with \<open>go\<close>: the events it has produced, and whether its function
  has returned or is waiting (for a signal, or for a process to exit).
\<close>

datatype task = Finished "event list" | Waiting "event list"

fun task_events :: "task \<Rightarrow> event list" where
  "task_events (Finished evs) = evs"
| "task_events (Waiting evs) = evs"

fun finished :: "task \<Rightarrow> bool" where
  "finished (Finished evs) = True"
| "finished (Waiting evs) = False"

text \<open>
  How a call of an entry point ends: it returns its \<open>error\<close> (\<open>None\<close> is nil), it panics,
  or it does not return on the signals and exits it was given.
\<close>

datatype result = Returned "error option" | Panicked string | Blocked

record run =
  res :: result
  main_events :: "event list"
  goroutines :: "task list"

text \<open>
  The hooks \<open>OnSIGUSR2\<close> and \<open>OnServerShutdown\<close>: nil (\<open>None\<close>), or a function whose call
  returns or panics with a value.
\<close>

datatype hook = HookReturns | HookPanics string

record hooks =
  OnSIGUSR2 :: "hook option"
  OnServerShutdown :: "hook option"

section \<open>Process spawner\<close>

text \<open>The loop of \<open>forkProcess\<close> over \<open>os.Environ()\<close>, \<open>env\<close> being the slice built so far.\<close>

fun copy_env :: "string \<Rightarrow> string list \<Rightarrow> string list \<Rightarrow> string list" where
  "copy_env pfx [] env = env"
| "copy_env pfx (curEnvVar # rest) env =
     (if HasPrefix curEnvVar pfx then copy_env pfx rest env
      else copy_env pfx rest (env @ [curEnvVar]))"

definition child_env :: "names \<Rightarrow> string list \<Rightarrow> string list \<Rightarrow> string list" where
  "child_env N environ envValues = copy_env (envPrefix N) environ [] @ envValues"

text \<open>\<open>forkProcess\<close>, as its \<open>n\<close>-th call: the process handle or the error, and the events.\<close>

definition forkProcess :: "names \<Rightarrow> os \<Rightarrow> nat \<Rightarrow> string list \<Rightarrow> (error + process) \<times> event list" where
  "forkProcess N os n envValues =
     (case LookPath os n of
        Inl err \<Rightarrow> (Inl err, [])
      | Inr filePath \<Rightarrow>
          (case Getwd os n of
             Inl err \<Rightarrow> (Inl err, [])
           | Inr dir \<Rightarrow>
               (let env = child_env N (Environ os) envValues
                in (case StartProcess os n filePath dir env of
                      Inl err \<Rightarrow> (Inl err, [EvStartProcess filePath dir env])
                    | Inr childProcess \<Rightarrow> (Inr childProcess, [EvStartProcess filePath dir env])))))"

section \<open>Main process supervisor\<close>

text \<open>
  The state of \<open>StartMainProcess\<close>: the slice \<open>workers\<close>, the number of calls of
  \<open>forkProcess\<close> made so far, and the events of the main goroutine.
\<close>

record sup =
  workers :: "process option list"
  nfork :: nat
  events :: "event list"

definition worker_envVals :: "names \<Rightarrow> globals \<Rightarrow> nat \<Rightarrow> string list" where
  "worker_envVals N g i =
     [envPPID N @ ''='' @ itoa (pid g), envCPUCore N @ ''='' @ itoa (int i)]"

text \<open>
  One iteration of the loop \<open>for i := 0; i < numCPU; i++\<close>. The assignment
  \<open>workers[i], err = forkProcess(envVals)\<close> stores nil when the call fails.
\<close>

definition spawn_worker :: "names \<Rightarrow> os \<Rightarrow> globals \<Rightarrow> nat \<Rightarrow> sup \<Rightarrow> sup" where
  "spawn_worker N os g i st =
     (let envVals = worker_envVals N g i;
          (r, evs) = forkProcess N os (nfork st) envVals
      in (case r of
            Inl err \<Rightarrow>
              \<lparr> workers = (workers st)[i := None],
                nfork = Suc (nfork st),
                events = events st @ evs @
                  [Printf ''Could not start worker process. Error: %s'' [AErr err]] \<rparr>
          | Inr p \<Rightarrow>
              \<lparr> workers = (workers st)[i := Some p],
                nfork = Suc (nfork st),
                events = events st @ evs @
                  [Printf ''Worker process PID=%d started on CPU core %d''
                     [AInt (Pid p), AInt (int i)]] \<rparr>))"

function spawn_workers :: "names \<Rightarrow> os \<Rightarrow> globals \<Rightarrow> nat \<Rightarrow> nat \<Rightarrow> sup \<Rightarrow> sup" where
  "spawn_workers N os g numCPU i st =
     (if i < numCPU then spawn_workers N os g numCPU (Suc i) (spawn_worker N os g i st)
      else st)"
  by pat_completeness auto
termination
  by (relation "measure (\<lambda>(N, os, g, numCPU, i, st). numCPU - i)") auto

declare spawn_workers.simps [simp del]

text \<open>\<open>prevMainProcessGraceInterval = 5 * time.Second\<close>, a \<open>time.Duration\<close> in nanoseconds.\<close>

definition prevMainProcessGraceInterval :: nat where
  "prevMainProcessGraceInterval = 5 * 1000000000"

text \<open>The goroutine that retires the previous main process.\<close>

definition kill_prev :: "os \<Rightarrow> globals \<Rightarrow> string \<Rightarrow> task" where
  "kill_prev os g prevMainPIDStr =
     Finished (EvSleep prevMainProcessGraceInterval #
       (case Atoi prevMainPIDStr of
          Inl err \<Rightarrow>
            [Printf ''Main process PID=%d could not parse previous PID: %s''
               [AInt (pid g), AErr err]]
        | Inr prevMainPID \<Rightarrow>
            EvFindProcess prevMainPID #
            (case FindProcess os prevMainPID of
               Inl err \<Rightarrow>
                 [Printf ''Main process PID=%d could not find process for previous PID=%d: %s''
                    [AInt (pid g), AInt prevMainPID, AErr err]]
             | Inr prevProcess \<Rightarrow>
                 EvSignal prevProcess SIGTERM #
                 (case Signal os prevProcess SIGTERM of
                    Some err \<Rightarrow>
                      [Printf ''Main process PID=%d could not send SIGTERM to previous PID=%d: %s''
                         [AInt (pid g), AInt prevMainPID, AErr err]]
                  | None \<Rightarrow> []))))"

text \<open>
  A hook call inside \<open>func() { defer func() { panicErr := recover(); log... }(); hook() }()\<close>:
  the deferred function runs whether the hook returns or panics, \<open>recover\<close> stops the
  panic, and the line is logged with what \<open>recover\<close> returned (nil after a normal return).
\<close>

definition call_hook :: "string \<Rightarrow> string \<Rightarrow> int \<Rightarrow> hook option \<Rightarrow> event list" where
  "call_hook name fmt p h =
     (case h of
        None \<Rightarrow> []
      | Some HookReturns \<Rightarrow> [EvHook name, Printf fmt [AInt p, ANil]]
      | Some (HookPanics v) \<Rightarrow> [EvHook name, Printf fmt [AInt p, AStr v]])"

text \<open>The goroutine \<open>sendSignalToWorkers\<close> starts for one worker.\<close>

definition signal_worker :: "os \<Rightarrow> signal \<Rightarrow> process \<Rightarrow> task" where
  "signal_worker os sig p =
     (case Signal os p sig of
        Some err \<Rightarrow>
          Finished [EvSignal p sig,
            Printf ''Could not send signal %s to worker process PID=%d. Error: %s''
              [ASig sig, AInt (Pid p), AErr err]]
      | None \<Rightarrow>
          (case Wait os p of
             None \<Rightarrow> Waiting [EvSignal p sig, EvWait p]
           | Some (Inl err) \<Rightarrow>
               Finished [EvSignal p sig, EvWait p,
                 Printf ''Waiting failed after sending signal %s to worker process PID=%d. Error: %s''
                   [ASig sig, AInt (Pid p), AErr err]]
           | Some (Inr pState) \<Rightarrow>
               Finished [EvSignal p sig, EvWait p,
                 Printf ''Worker process PID=%d exited with status: %s''
                   [AInt (Pid p), AStr pState]]))"

text \<open>The loop of \<open>sendSignalToWorkers\<close>: one goroutine for each worker that is not nil.\<close>

fun start_signal_workers :: "os \<Rightarrow> signal \<Rightarrow> process option list \<Rightarrow> task list" where
  "start_signal_workers os sig [] = []"
| "start_signal_workers os sig (None # rest) = start_signal_workers os sig rest"
| "start_signal_workers os sig (Some p # rest) =
     signal_worker os sig p # start_signal_workers os sig rest"

text \<open>
  \<open>sendSignalToWorkers\<close>: \<open>wg.Wait()\<close> returns when every goroutine has called \<open>wg.Done()\<close>,
  that is, has returned. The boolean tells whether \<open>sendSignalToWorkers\<close> returns.
\<close>

definition sendSignalToWorkers :: "os \<Rightarrow> process option list \<Rightarrow> signal \<Rightarrow> task list \<times> bool" where
  "sendSignalToWorkers os ws sig =
     (let tasks = start_signal_workers os sig ws in (tasks, list_all finished tasks))"

text \<open>The \<open>case syscall.SIGUSR2\<close> of the signal loop.\<close>

definition upgrade :: "names \<Rightarrow> os \<Rightarrow> globals \<Rightarrow> hooks \<Rightarrow> sup \<Rightarrow> sup" where
  "upgrade N os g h st =
     (let hook_evs = call_hook ''OnSIGUSR2'' ''Main process PID=%d OnSIGUSR2 hook panicked: %s''
                       (pid g) (OnSIGUSR2 h);
          envValues = [envPrevPPID N @ ''='' @ itoa (pid g)];
          (r, evs) = forkProcess N os (nfork st) envValues
      in st \<lparr> nfork := Suc (nfork st),
              events := events st @ hook_evs @
                [Printf ''Main process PID=%d starting new main process'' [AInt (pid g)]] @ evs @
                (case r of
                   Inl err \<Rightarrow>
                     [Printf ''Main process PID=%d could not start new main process: %s''
                        [AInt (pid g), AErr err]]
                 | Inr newMainProcess \<Rightarrow>
                     [Printf ''Main process PID=%d new main process PID=%d has started''
                        [AInt (pid g), AInt (Pid newMainProcess)]]) \<rparr>)"

text \<open>
  The signal loop, on the signals that arrive on \<open>sigChan\<close> in order (the channel is
  subscribed to the four signals of the type). With no signal left the loop waits.
  \<open>ts\<close> are the goroutines started before the loop.
\<close>

fun signal_loop :: "names \<Rightarrow> os \<Rightarrow> globals \<Rightarrow> hooks \<Rightarrow> signal list \<Rightarrow> task list \<Rightarrow> sup \<Rightarrow> run" where
  "signal_loop N os g h [] ts st =
     \<lparr> res = Blocked, main_events = events st, goroutines = ts \<rparr>"
| "signal_loop N os g h (sig # sigs) ts st =
     (let st1 = st \<lparr> events := events st @
                   [Printf ''Main process PID=%d recivied signal: %s'' [AInt (pid g), ASig sig]] \<rparr>
      in if sig = SIGINT \<or> sig = SIGTERM \<or> sig = SIGQUIT then
           (let (tasks, returned) = sendSignalToWorkers os (workers st1) sig
            in \<lparr> res = (if returned
                         then Returned (Some (ErrorString (''signal received: '' @ signal_String sig)))
                         else Blocked),
                 main_events = events st1,
                 goroutines = ts @ tasks \<rparr>)
         else signal_loop N os g h sigs ts (upgrade N os g h st1))"

text \<open>
  The state when the loop over the cores starts: the first log line is written and
  \<open>workers := make([]*os.Process, numCPU)\<close> holds \<open>numCPU\<close> nil pointers.
\<close>

definition initial_sup :: "nat \<Rightarrow> globals \<Rightarrow> sup" where
  "initial_sup numCPU g =
     \<lparr> workers = replicate numCPU None, nfork = 0,
       events = [Printf ''Main process PID=%d, starting up a pack..'' [AInt (pid g)]] \<rparr>"

definition StartMainProcess :: "names \<Rightarrow> os \<Rightarrow> globals \<Rightarrow> hooks \<Rightarrow> signal list \<Rightarrow> run" where
  "StartMainProcess N os g h sigs =
     (let numCPU = NumCPU os;
          st = spawn_workers N os g numCPU 0 (initial_sup numCPU g);
          prevMainPIDStr = Getenv (Environ os) (envPrevPPID N);
          ts = (if prevMainPIDStr \<noteq> [] then [kill_prev os g prevMainPIDStr] else [])
      in signal_loop N os g h sigs ts st)"

subsection \<open>Notions used to state the properties of the supervisor\<close>

text \<open>
  The spawn attempt for core \<open>i\<close>: the call number \<open>i\<close> of \<open>forkProcess\<close>, with the
  values of worker \<open>i\<close>; the pool slot a result leaves; and the line logged for it.
\<close>

definition fork_worker :: "names \<Rightarrow> os \<Rightarrow> globals \<Rightarrow> nat \<Rightarrow> (error + process) \<times> event list" where
  "fork_worker N os g i = forkProcess N os i (worker_envVals N g i)"

definition slot_of :: "error + process \<Rightarrow> process option" where
  "slot_of r = (case r of Inl err \<Rightarrow> None | Inr p \<Rightarrow> Some p)"

definition spawn_log :: "nat \<Rightarrow> error + process \<Rightarrow> event" where
  "spawn_log i r =
     (case r of
        Inl err \<Rightarrow> Printf ''Could not start worker process. Error: %s'' [AErr err]
      | Inr p \<Rightarrow> Printf ''Worker process PID=%d started on CPU core %d'' [AInt (Pid p), AInt (int i)])"

text \<open>
  The state and the pool with which the signal loop starts, and the worker records of a
  pool that are not nil.
\<close>

definition spawn_events :: "names \<Rightarrow> os \<Rightarrow> globals \<Rightarrow> nat \<Rightarrow> event list" where
  "spawn_events N os g i = snd (fork_worker N os g i) @ [spawn_log i (fst (fork_worker N os g i))]"

definition spawned :: "names \<Rightarrow> os \<Rightarrow> globals \<Rightarrow> sup" where
  "spawned N os g = spawn_workers N os g (NumCPU os) 0 (initial_sup (NumCPU os) g)"

definition pool :: "names \<Rightarrow> os \<Rightarrow> globals \<Rightarrow> process option list" where
  "pool N os g = workers (spawned N os g)"

fun live :: "process option list \<Rightarrow> process list" where
  "live [] = []"
| "live (None # ws) = live ws"
| "live (Some p # ws) = p # live ws"

text \<open>
  The goroutines started before the signal loop, and the error \<open>StartMainProcess\<close> returns
  for a signal.
\<close>

definition prev_tasks :: "names \<Rightarrow> os \<Rightarrow> globals \<Rightarrow> task list" where
  "prev_tasks N os g =
     (if Getenv (Environ os) (envPrevPPID N) \<noteq> []
      then [kill_prev os g (Getenv (Environ os) (envPrevPPID N))] else [])"

definition signal_error :: "signal \<Rightarrow> error" where
  "signal_error sig = ErrorString (''signal received: '' @ signal_String sig)"

text \<open>
  The values \<open>forkProcess\<close> is called with on an upgrade request; the environments of the
  calls of \<open>os.StartProcess\<close> among some events, in order; and whether call \<open>n\<close> of
  \<open>forkProcess\<close> gets as far as \<open>os.StartProcess\<close> (the path of the executable and the
  working directory are found).
\<close>

definition upgrade_envValues :: "names \<Rightarrow> globals \<Rightarrow> string list" where
  "upgrade_envValues N g = [envPrevPPID N @ ''='' @ itoa (pid g)]"

fun started :: "event list \<Rightarrow> string list list" where
  "started [] = []"
| "started (EvStartProcess filePath dir env # evs) = env # started evs"
| "started (ev # evs) = started evs"

definition resolves :: "os \<Rightarrow> nat \<Rightarrow> bool" where
  "resolves os n = (\<not> isl (LookPath os n) \<and> \<not> isl (Getwd os n))"

definition shutdown_signal :: "signal \<Rightarrow> bool" where
  "shutdown_signal sig = (sig = SIGINT \<or> sig = SIGTERM \<or> sig = SIGQUIT)"

section \<open>Worker runtime setup\<close>

text \<open>\<open>setupWorkerRuntime\<close>: the error it returns (\<open>None\<close> is nil) and its events.\<close>

definition setupWorkerRuntime :: "os \<Rightarrow> globals \<Rightarrow> error option \<times> event list" where
  "setupWorkerRuntime os g =
     (case Atoi (workerCpuCore g) of
        Inl err \<Rightarrow> (Some err, [])
      | Inr cpuCore \<Rightarrow>
          (case SetAffinity os cpuCore of
             Some err \<Rightarrow>
               (Some err,
                [EvSetAffinity cpuCore,
                 Printf ''Could not set affinity to CPU core %d: %s'' [AInt cpuCore, AErr err]])
           | None \<Rightarrow>
               (None,
                [EvSetAffinity cpuCore, EvGOMAXPROCS 1,
                 Printf ''Starting worker PID=%d on CPU core %d'' [AInt (pid g), AInt cpuCore]])))"

section \<open>Socket factory\<close>

text \<open>\<open>strings.Join\<close>.\<close>

fun Join :: "string list \<Rightarrow> string \<Rightarrow> string" where
  "Join [] sep = []"
| "Join [a] sep = a"
| "Join (a # b # elems) sep = a @ sep @ Join (b # elems) sep"

text \<open>
  The \<open>Control\<close> function of the \<open>net.ListenConfig\<close>. Its three errors are \<open>err\<close> of
  \<open>c.Control\<close> and \<open>reuseAddrErr\<close>, \<open>reusePortErr\<close> of the two \<open>SetsockoptInt\<close> calls; the
  function only tests them for nil and reads their \<open>Error()\<close> text, so each is given as
  that text (\<open>None\<close> is nil).
\<close>

definition Control :: "sock \<Rightarrow> error option" where
  "Control c =
     (let err = rawControl c;
          reuseAddrErr = setReuseAddr c;
          reusePortErr = setReusePort c;
          errMsg = [];
          errMsg = (case err of Some m \<Rightarrow> errMsg @ [m] | None \<Rightarrow> errMsg);
          errMsg = (case reuseAddrErr of Some m \<Rightarrow> errMsg @ [m] | None \<Rightarrow> errMsg);
          errMsg = (case reusePortErr of Some m \<Rightarrow> errMsg @ [m] | None \<Rightarrow> errMsg)
      in if length errMsg > 0 then Some (ErrorString (Join errMsg '';'')) else None)"

text \<open>The messages of the errors that are not nil, in the order in which the code tests them.\<close>

definition option_errors :: "sock \<Rightarrow> string list" where
  "option_errors c = List.map_filter id [rawControl c, setReuseAddr c, setReusePort c]"

text \<open>
  \<open>listenConf.Listen\<close> of the standard library, as far as the package depends on it: the
  \<open>Control\<close> function runs on the new socket before it is bound; when it returns an error,
  or the socket cannot be bound, \<open>Listen\<close> returns a nil listener and that error, wrapped.
\<close>

definition Listen :: "sock \<Rightarrow> string \<Rightarrow> string \<Rightarrow> listener option \<times> error option" where
  "Listen c network address =
     (case Control c of
        Some e \<Rightarrow> (None, Some (OpError ''listen'' e))
      | None \<Rightarrow>
          (case bind c of
             Inl e \<Rightarrow> (None, Some (OpError ''listen'' e))
           | Inr l \<Rightarrow> (Some l, None)))"

definition nil_dereference :: string where
  "nil_dereference = ''runtime error: invalid memory address or nil pointer dereference''"

text \<open>
  \<open>getListenerWithSocketOptions\<close>. The argument \<open>l.Addr()\<close> of the log call is evaluated
  in the branch \<open>err != nil\<close>; on a nil \<open>l\<close> that is a nil dereference.
\<close>

definition getListenerWithSocketOptions ::
    "os \<Rightarrow> string \<Rightarrow> string \<Rightarrow> (listener option \<times> error option) outcome \<times> event list" where
  "getListenerWithSocketOptions os network address =
     (let (l, err) = Listen (socket os) network address
      in if err \<noteq> None then
           (case l of
              None \<Rightarrow>
                (Panic nil_dereference,
                 [EvListen network address])
            | Some lst \<Rightarrow>
                (Return (l, err),
                 [EvListen network address, Printf ''Starting listener on %s'' [AStr (Addr lst)]]))
         else (Return (l, err), [EvListen network address]))"

section \<open>Worker entry points and shutdown coordinator\<close>

text \<open>
  The servers handed to the entry points. \<open>Serve\<close> is a blocking call of the server's own
  code: the model takes how it ends. \<open>TLSConfig\<close> tells whether \<open>server.TLSConfig\<close> is not nil.
\<close>

record http_server =
  TLSConfig :: bool
  Serve :: "listener \<Rightarrow> result"
  ServeTLS :: "listener \<Rightarrow> result"
  Shutdown :: "error option"

record grpc_server =
  grpcServe :: "listener \<Rightarrow> result"

text \<open>
  The goroutine of a worker that waits for a signal: \<open>sig := <-sigChan\<close> takes the first
  signal that arrives on the channel, and the goroutine waits when there is none.
\<close>

definition shutdown_hook_events :: "globals \<Rightarrow> hooks \<Rightarrow> event list" where
  "shutdown_hook_events g h =
     call_hook ''OnServerShutdown'' ''Worker process PID=%d OnServerShutdown hook panicked: %s''
       (pid g) (OnServerShutdown h)"

definition http_shutdown :: "globals \<Rightarrow> hooks \<Rightarrow> http_server \<Rightarrow> signal list \<Rightarrow> task" where
  "http_shutdown g h server sigs =
     (case sigs of
        [] \<Rightarrow> Waiting []
      | sig # _ \<Rightarrow>
          Finished
            ([Printf ''Worker process PID=%d recivied signal: %s. Shutdown gracefully''
                [AInt (pid g), ASig sig]] @
             shutdown_hook_events g h @
             [EvShutdown] @
             (case Shutdown server of
                Some err \<Rightarrow>
                  [Printf ''Worker process PID=%d could not shutdown gracefully: %s''
                     [AInt (pid g), AErr err]]
              | None \<Rightarrow> [])))"

definition grpc_shutdown :: "globals \<Rightarrow> hooks \<Rightarrow> signal list \<Rightarrow> task" where
  "grpc_shutdown g h sigs =
     (case sigs of
        [] \<Rightarrow> Waiting []
      | sig # _ \<Rightarrow>
          Finished
            ([Printf ''Worker process PID=%d received signal: %s. Shutdown gracefully''
                [AInt (pid g), ASig sig]] @
             shutdown_hook_events g h @
             [EvGracefulStop]))"

definition ListenAndServeHttp ::
    "names \<Rightarrow> os \<Rightarrow> globals \<Rightarrow> hooks \<Rightarrow> signal list \<Rightarrow> string \<Rightarrow> string \<Rightarrow> http_server option \<Rightarrow> run" where
  "ListenAndServeHttp N os g h sigs network address server =
     (if isMainProcess g then StartMainProcess N os g h sigs
      else (case server of
        None \<Rightarrow>
          \<lparr> res = Returned (Some (ErrorString ''nil server passed'')),
            main_events = [], goroutines = [] \<rparr>
      | Some srv \<Rightarrow>
          (case setupWorkerRuntime os g of
             (Some err, evs) \<Rightarrow> \<lparr> res = Returned (Some err), main_events = evs, goroutines = [] \<rparr>
           | (None, evs) \<Rightarrow>
               (case getListenerWithSocketOptions os network address of
                  (Panic m, evs2) \<Rightarrow>
                    \<lparr> res = Panicked m, main_events = evs @ evs2, goroutines = [] \<rparr>
                | (Return (l, Some err), evs2) \<Rightarrow>
                    \<lparr> res = Returned (Some err), main_events = evs @ evs2, goroutines = [] \<rparr>
                | (Return (None, None), evs2) \<Rightarrow>
                    \<lparr> res = Panicked nil_dereference, main_events = evs @ evs2,
                      goroutines = [http_shutdown g h srv sigs] \<rparr>
                | (Return (Some lst, None), evs2) \<Rightarrow>
                    (if TLSConfig srv then
                       \<lparr> res = ServeTLS srv lst,
                         main_events = evs @ evs2 @ [Println ''Using TLS'', EvServeTLS lst],
                         goroutines = [http_shutdown g h srv sigs] \<rparr>
                     else
                       \<lparr> res = Serve srv lst,
                         main_events = evs @ evs2 @ [EvServe lst],
                         goroutines = [http_shutdown g h srv sigs] \<rparr>)))))"

definition ListenAndServeGRPC ::
    "names \<Rightarrow> os \<Rightarrow> globals \<Rightarrow> hooks \<Rightarrow> signal list \<Rightarrow> string \<Rightarrow> string \<Rightarrow> grpc_server option \<Rightarrow> run" where
  "ListenAndServeGRPC N os g h sigs network address server =
     (if isMainProcess g then StartMainProcess N os g h sigs
      else (case server of
        None \<Rightarrow>
          \<lparr> res = Returned (Some (ErrorString ''nil server passed'')),
            main_events = [], goroutines = [] \<rparr>
      | Some srv \<Rightarrow>
          (case setupWorkerRuntime os g of
             (Some err, evs) \<Rightarrow> \<lparr> res = Returned (Some err), main_events = evs, goroutines = [] \<rparr>
           | (None, evs) \<Rightarrow>
               (case getListenerWithSocketOptions os network address of
                  (Panic m, evs2) \<Rightarrow>
                    \<lparr> res = Panicked m, main_events = evs @ evs2, goroutines = [] \<rparr>
                | (Return (l, Some err), evs2) \<Rightarrow>
                    \<lparr> res = Returned (Some err), main_events = evs @ evs2, goroutines = [] \<rparr>
                | (Return (None, None), evs2) \<Rightarrow>
                    \<lparr> res = Panicked nil_dereference, main_events = evs @ evs2,
                      goroutines = [grpc_shutdown g h sigs] \<rparr>
                | (Return (Some lst, None), evs2) \<Rightarrow>
                    \<lparr> res = grpcServe srv lst,
                      main_events = evs @ evs2 @ [EvServe lst],
                      goroutines = [grpc_shutdown g h sigs] \<rparr>))))"

text \<open>
  The accept loop of \<open>ListenAndServeTCP\<close> on the results of \<open>l.Accept()\<close> so far: an
  error, or the network and address of the peer. The loop has no exit.
\<close>

fun accept_loop :: "globals \<Rightarrow> (error + string \<times> string) list \<Rightarrow> event list" where
  "accept_loop g [] = [EvAccept]"
| "accept_loop g (Inl err # rest) =
     EvAccept #
     Printf ''Worker process PID=%d accept connection error: %s'' [AInt (pid g), AErr err] #
     accept_loop g rest"
| "accept_loop g (Inr (net, addr) # rest) =
     EvAccept #
     Printf ''New connection accepted from %s/%s'' [AStr net, AStr addr] #
     EvHandler addr #
     accept_loop g rest"

definition ListenAndServeTCP ::
    "names \<Rightarrow> os \<Rightarrow> globals \<Rightarrow> hooks \<Rightarrow> signal list \<Rightarrow> string \<Rightarrow> string \<Rightarrow> bool \<Rightarrow>
     (error + string \<times> string) list \<Rightarrow> run" where
  "ListenAndServeTCP N os g h sigs network address tlsConfig accepts =
     (if isMainProcess g then StartMainProcess N os g h sigs
      else (case setupWorkerRuntime os g of
        (Some err, evs) \<Rightarrow> \<lparr> res = Returned (Some err), main_events = evs, goroutines = [] \<rparr>
      | (None, evs) \<Rightarrow>
          (case getListenerWithSocketOptions os network address of
             (Panic m, evs2) \<Rightarrow>
               \<lparr> res = Panicked m, main_events = evs @ evs2, goroutines = [] \<rparr>
           | (Return (l, Some err), evs2) \<Rightarrow>
               \<lparr> res = Returned (Some err), main_events = evs @ evs2, goroutines = [] \<rparr>
           | (Return (None, None), evs2) \<Rightarrow>
               \<lparr> res = Panicked nil_dereference, main_events = evs @ evs2, goroutines = [] \<rparr>
           | (Return (Some lst, None), evs2) \<Rightarrow>
               \<lparr> res = Blocked,
                 main_events = evs @ evs2 @
                   (if tlsConfig then [Println ''Using TLS''] else []) @ accept_loop g accepts,
                 goroutines = [] \<rparr>)))"

section \<open>A concrete installation, for evaluating the model\<close>

definition example_names :: names where
  "example_names =
     \<lparr> envPrefix = ''GOPHERPACK_'',
       envPPID = ''GOPHERPACK_PPID'',
       envCPUCore = ''GOPHERPACK_CPU_CORE'',
       envPrevPPID = ''GOPHERPACK_PREV_PPID'' \<rparr>"

text \<open>
  A machine with four cores on which every call succeeds, except that the third call of
  \<open>forkProcess\<close> (number 2) cannot start its process. Children get the process ids
  \<open>1000\<close>, \<open>1001\<close>, ... in the order of the calls.
\<close>

definition example_os :: os where
  "example_os =
     \<lparr> Environ = [''PATH=/bin'', ''HOME=/root''],
       LookPath = (\<lambda>n. Inr ''/srv/server''),
       Getwd = (\<lambda>n. Inr ''/srv''),
       StartProcess = (\<lambda>n filePath dir env.
          if n = 2 then Inl (ErrorString ''fork/exec /srv/server: resource temporarily unavailable'')
          else Inr (Process (1000 + int n))),
       NumCPU = 4,
       Signal = (\<lambda>p sig. None),
       Wait = (\<lambda>p. Some (Inr ''exit status 0'')),
       FindProcess = (\<lambda>p. Inr (Process p)),
       SetAffinity = (\<lambda>cpuCore. None),
       socket = \<lparr> rawControl = None, setReuseAddr = None, setReusePort = None,
                  bind = Inr (Listener ''127.0.0.1:8778'') \<rparr> \<rparr>"

text \<open>The main process of the installation, with process id \<open>4242\<close>.\<close>

definition example_globals :: globals where
  "example_globals = init_globals example_names 4242 (Environ example_os)"

definition example_hooks :: hooks where
  "example_hooks = \<lparr> OnSIGUSR2 = None, OnServerShutdown = Some (HookPanics ''boom'') \<rparr>"

section \<open>Decimal text: parsing what was printed\<close>

lemma digit_char_props:
  assumes "d < 10"
  shows "is_digit (digit_char d)" and "digit_val (digit_char d) = d"
    and "digit_char d \<noteq> CHR ''-''" and "digit_char d \<noteq> CHR ''+''"
proof -
  from assms have "d = 0 \<or> d = 1 \<or> d = 2 \<or> d = 3 \<or> d = 4 \<or> d = 5 \<or> d = 6 \<or> d = 7 \<or> d = 8 \<or> d = 9"
    by arith
  then show "is_digit (digit_char d)" and "digit_val (digit_char d) = d"
    and "digit_char d \<noteq> CHR ''-''" and "digit_char d \<noteq> CHR ''+''"
    by (auto simp: digit_char_def is_digit_def digit_val_def)
qed

lemma nat_digits_nonempty: "nat_digits n \<noteq> []"
  by (subst nat_digits.simps) simp

lemma hd_nat_digits: "\<exists>d<10. hd (nat_digits n) = digit_char d"
proof (induction n rule: nat_digits.induct)
  case (1 n)
  show ?case
  proof (cases "n < 10")
    case True
    then show ?thesis by (subst nat_digits.simps) auto
  next
    case False
    with 1 nat_digits_nonempty [of "n div 10"] show ?thesis
      by (subst nat_digits.simps) simp
  qed
qed

lemma parse_digits_step:
  "is_digit c \<Longrightarrow> n * 10 + digit_val c \<le> 2 ^ 64 - 1 \<Longrightarrow>
   parse_digits n (c # cs) = parse_digits (n * 10 + digit_val c) cs"
  by simp

lemma parse_nat_digits:
  "acc * 10 ^ length (nat_digits n) + n \<le> 2 ^ 64 - 1 \<Longrightarrow>
   parse_digits acc (nat_digits n @ rest) = parse_digits (acc * 10 ^ length (nat_digits n) + n) rest"
proof (induction n arbitrary: acc rest rule: nat_digits.induct)
  case (1 n)
  show ?case
  proof (cases "n < 10")
    case True
    then have nd: "nat_digits n = [digit_char n]" by (subst nat_digits.simps) simp
    from 1(2) have b: "acc * 10 + digit_val (digit_char n) \<le> 2 ^ 64 - 1"
      by (simp add: nd digit_char_props(2) [OF True])
    show ?thesis
      using parse_digits_step [OF digit_char_props(1) [OF True] b, of rest]
      by (simp add: nd digit_char_props(2) [OF True] del: parse_digits.simps)
  next
    case False
    let ?l = "length (nat_digits (n div 10))"
    let ?c = "digit_char (n mod 10)"
    have m: "n mod 10 < 10" by simp
    from False have nd: "nat_digits n = nat_digits (n div 10) @ [?c]"
      by (subst nat_digits.simps) simp
    have n: "n = (n div 10) * 10 + n mod 10" by simp
    have eq: "(acc * 10 ^ ?l + n div 10) * 10 + n mod 10 = acc * 10 ^ Suc ?l + n"
      by (simp add: algebra_simps)
    from 1(2) have B: "acc * 10 ^ Suc ?l + n \<le> 2 ^ 64 - 1" by (simp add: nd)
    with eq have b2: "(acc * 10 ^ ?l + n div 10) * 10 + digit_val ?c \<le> 2 ^ 64 - 1"
      by (simp only: digit_char_props(2) [OF m])
    have "acc * 10 ^ ?l + n div 10 \<le> (acc * 10 ^ ?l + n div 10) * 10 + digit_val ?c"
      by simp
    from this b2 have b1: "acc * 10 ^ ?l + n div 10 \<le> 2 ^ 64 - 1" by (rule order_trans)
    have "parse_digits acc (nat_digits n @ rest) = parse_digits acc (nat_digits (n div 10) @ (?c # rest))"
      by (simp add: nd del: parse_digits.simps)
    also have "\<dots> = parse_digits (acc * 10 ^ ?l + n div 10) (?c # rest)"
      using 1(1) [OF False b1] .
    also have "\<dots> = parse_digits ((acc * 10 ^ ?l + n div 10) * 10 + digit_val ?c) rest"
      using parse_digits_step [OF digit_char_props(1) [OF m] b2] .
    also have "\<dots> = parse_digits (acc * 10 ^ Suc ?l + n) rest"
      by (simp only: digit_char_props(2) [OF m] eq)
    finally show ?thesis by (simp add: nd del: parse_digits.simps)
  qed
qed

lemma Atoi_itoa:
  assumes "0 \<le> i" and "i < 2 ^ 63"
  shows "Atoi (itoa i) = Inr i"
proof -
  let ?n = "nat i"
  let ?s = "nat_digits ?n"
  from assms have it: "itoa i = ?s" by (simp add: itoa_def)
  obtain d where d: "d < 10" "hd ?s = digit_char d" using hd_nat_digits by blast
  have ne: "?s \<noteq> []" by (rule nat_digits_nonempty)
  from d have sg: "hd ?s \<noteq> CHR ''-''" "hd ?s \<noteq> CHR ''+''"
    using digit_char_props(3,4) by auto
  from assms have lt: "?n < 2 ^ 63"
    by (metis nat_less_iff numeral_power_eq_of_nat_cancel_iff)
  then have "0 * 10 ^ length ?s + ?n \<le> 2 ^ 64 - 1" by simp
  from parse_nat_digits [OF this, of "[]"] have p: "parse_digits 0 ?s = Inr ?n" by simp
  from lt have nl: "\<not> 2 ^ 63 \<le> ?n" by simp
  show ?thesis
    unfolding it using ne sg p nl assms(1) by (simp add: Atoi_def Let_def)
qed

lemma itoa_nonempty: "itoa i \<noteq> []"
  by (simp add: itoa_def nat_digits_nonempty)

section \<open>Properties of the environment protocol\<close>

lemma entry_key_mk: "CHR ''='' \<notin> set K \<Longrightarrow> entry_key (K @ CHR ''='' # v) = Some K"
  by (induction K) (auto simp: entry_key_def)

lemma entry_value_mk: "CHR ''='' \<notin> set K \<Longrightarrow> entry_value (K @ CHR ''='' # v) = v"
  by (induction K) (auto simp: entry_value_def)

lemma entry_decompose:
  assumes "entry_key s = Some K"
  shows "s = K @ CHR ''='' # entry_value s \<and> CHR ''='' \<notin> set K"
proof -
  let ?P = "\<lambda>c. c \<noteq> CHR ''=''"
  from assms have mem: "CHR ''='' \<in> set s" and K: "K = takeWhile ?P s"
    by (auto simp: entry_key_def split: if_splits)
  from mem have "dropWhile ?P s \<noteq> []" by simp
  moreover from this have "hd (dropWhile ?P s) = CHR ''=''"
    using hd_dropWhile [of ?P s] by simp
  ultimately have d: "dropWhile ?P s = CHR ''='' # entry_value s"
    by (cases "dropWhile ?P s") (simp_all add: entry_value_def)
  have "s = takeWhile ?P s @ dropWhile ?P s" by simp
  with d K have "s = K @ CHR ''='' # entry_value s" by simp
  moreover have "CHR ''='' \<notin> set K"
    unfolding K using set_takeWhileD by fastforce
  ultimately show ?thesis ..
qed

text \<open>
  \<open>os.Getenv\<close> is not empty exactly when the first entry of the variable has a value that
  is not empty.
\<close>

lemma Getenv_nonempty_iff:
  assumes "K \<noteq> []" and "CHR ''='' \<notin> set K"
  shows "Getenv environ K \<noteq> [] \<longleftrightarrow>
         (\<exists>pre v rest. environ = pre @ (K @ CHR ''='' # v) # rest \<and> v \<noteq> [] \<and> \<not> token_present pre K)"
proof (induction environ)
  case Nil
  then show ?case by simp
next
  case (Cons s es)
  show ?case
  proof (cases "entry_key s = Some K")
    case True
    then have s: "s = K @ CHR ''='' # entry_value s" using entry_decompose by blast
    have g: "Getenv (s # es) K = entry_value s" using True assms by simp
    show ?thesis
    proof
      assume "Getenv (s # es) K \<noteq> []"
      with g have "entry_value s \<noteq> []" by simp
      moreover have "s # es = [] @ (K @ CHR ''='' # entry_value s) # es" using s by simp
      moreover have "\<not> token_present [] K" by (simp add: token_present_def)
      ultimately show "\<exists>pre v rest. s # es = pre @ (K @ CHR ''='' # v) # rest \<and> v \<noteq> [] \<and> \<not> token_present pre K"
        by blast
    next
      assume "\<exists>pre v rest. s # es = pre @ (K @ CHR ''='' # v) # rest \<and> v \<noteq> [] \<and> \<not> token_present pre K"
      then obtain pre v rest where d: "s # es = pre @ (K @ CHR ''='' # v) # rest" "v \<noteq> []"
        "\<not> token_present pre K" by blast
      have "pre = []"
      proof (cases pre)
        case Nil then show ?thesis .
      next
        case (Cons a pre')
        with d(1) have "a = s" by simp
        with Cons True d(3) show ?thesis by (simp add: token_present_def)
      qed
      with d(1) have "s = K @ CHR ''='' # v" by simp
      then have "entry_value s = v" using entry_value_mk [OF assms(2)] by simp
      with g d(2) show "Getenv (s # es) K \<noteq> []" by simp
    qed
  next
    case False
    then have g: "Getenv (s # es) K = Getenv es K" by simp
    show ?thesis
    proof
      assume "Getenv (s # es) K \<noteq> []"
      with g Cons.IH obtain pre v rest where
        d: "es = pre @ (K @ CHR ''='' # v) # rest" "v \<noteq> []" "\<not> token_present pre K" by auto
      from d(1) have "s # es = (s # pre) @ (K @ CHR ''='' # v) # rest" by simp
      moreover from d(3) False have "\<not> token_present (s # pre) K"
        by (auto simp: token_present_def)
      ultimately show "\<exists>pre v rest. s # es = pre @ (K @ CHR ''='' # v) # rest \<and> v \<noteq> [] \<and> \<not> token_present pre K"
        using d(2) by blast
    next
      assume "\<exists>pre v rest. s # es = pre @ (K @ CHR ''='' # v) # rest \<and> v \<noteq> [] \<and> \<not> token_present pre K"
      then obtain pre v rest where d: "s # es = pre @ (K @ CHR ''='' # v) # rest" "v \<noteq> []"
        "\<not> token_present pre K" by blast
      have "pre \<noteq> []"
      proof
        assume "pre = []"
        with d(1) have "s = K @ CHR ''='' # v" by simp
        with entry_key_mk [OF assms(2)] False show False by simp
      qed
      then obtain pre' where pre: "pre = s # pre'" using d(1) by (cases pre) auto
      with d(1) have "es = pre' @ (K @ CHR ''='' # v) # rest" by simp
      moreover from d(3) pre have "\<not> token_present pre' K" by (auto simp: token_present_def)
      ultimately have "Getenv es K \<noteq> []" using Cons.IH d(2) by blast
      with g show "Getenv (s # es) K \<noteq> []" by simp
    qed
  qed
qed

lemma Getenv_filter_key:
  "Getenv (filter (\<lambda>s. entry_key s = Some K) environ) K = Getenv environ K"
  by (induction environ) auto

text \<open>
  C1, as stated: the process is a worker if and only if the parent-identity variable is
  present in its environment. An environment in which the variable is present with an
  empty value refutes it: \<open>os.Getenv\<close> returns the empty string for it, as for a missing
  variable, and the process is the main process.
\<close>

theorem detectRole_empty_token_counterexample:
  "token_present [''GOPHERPACK_PPID=''] (envPPID example_names)
   \<and> IsMainProcess (init_globals example_names 4242 [''GOPHERPACK_PPID=''])"
  by (simp add: token_present_def entry_key_def entry_value_def example_names_def
        IsMainProcess_def init_globals_def)

text \<open>
  C1, amended: the process is a worker if and only if the first entry of the
  parent-identity variable in the startup environment has a value that is not empty, and
  the main process otherwise; the entries of other variables do not matter; and the entry
  point takes the main-process path on the flag computed at startup, whatever the
  operating system says later.
\<close>

theorem detectRole_nonempty_token:
  assumes "envPPID N \<noteq> []" and "CHR ''='' \<notin> set (envPPID N)"
  shows "(\<not> IsMainProcess (init_globals N p environ) \<longleftrightarrow>
           (\<exists>pre v rest. environ = pre @ (envPPID N @ CHR ''='' # v) # rest \<and> v \<noteq> []
                         \<and> \<not> token_present pre (envPPID N)))
       \<and> IsMainProcess (init_globals N p (filter (\<lambda>s. entry_key s = Some (envPPID N)) environ))
           = IsMainProcess (init_globals N p environ)
       \<and> (IsMainProcess (init_globals N p environ) \<longrightarrow>
            ListenAndServeHttp N os (init_globals N p environ) h sigs network address server
              = StartMainProcess N os (init_globals N p environ) h sigs)"
proof -
  have a: "isMainProcess (init_globals N p environ) = (Getenv environ (envPPID N) = [])" for environ
    by (simp add: init_globals_def)
  show ?thesis
    using Getenv_nonempty_iff [OF assms, of environ]
    by (simp add: IsMainProcess_def a Getenv_filter_key ListenAndServeHttp_def)
qed

theorem detectRole_nonempty_token_witness:
  "\<not> IsMainProcess (init_globals example_names 9 [''PATH=/bin'', ''GOPHERPACK_PPID=4242''])
   \<and> (\<exists>pre v rest. [''PATH=/bin'', ''GOPHERPACK_PPID=4242'']
                      = pre @ (envPPID example_names @ CHR ''='' # v) # rest
                    \<and> v \<noteq> [] \<and> \<not> token_present pre (envPPID example_names))
   \<and> IsMainProcess (init_globals example_names 9 [''PATH=/bin''])
   \<and> ListenAndServeHttp example_names example_os (init_globals example_names 9 [''PATH=/bin''])
        example_hooks [SIGINT] ''tcp'' ''localhost:8778'' None
      = StartMainProcess example_names example_os (init_globals example_names 9 [''PATH=/bin''])
          example_hooks [SIGINT]"
proof -
  have n: "envPPID example_names \<noteq> []" "CHR ''='' \<notin> set (envPPID example_names)"
    by (simp_all add: example_names_def)
  have w: "\<not> IsMainProcess (init_globals example_names 9 [''PATH=/bin'', ''GOPHERPACK_PPID=4242''])"
    by (simp add: IsMainProcess_def init_globals_def example_names_def entry_key_def entry_value_def)
  have m: "IsMainProcess (init_globals example_names 9 [''PATH=/bin''])"
    by (simp add: IsMainProcess_def init_globals_def example_names_def entry_key_def entry_value_def)
  from detectRole_nonempty_token [OF n, of 9 "[''PATH=/bin'', ''GOPHERPACK_PPID=4242'']"] w
  have e: "\<exists>pre v rest. [''PATH=/bin'', ''GOPHERPACK_PPID=4242'']
                      = pre @ (envPPID example_names @ CHR ''='' # v) # rest
                    \<and> v \<noteq> [] \<and> \<not> token_present pre (envPPID example_names)"
    by blast
  from detectRole_nonempty_token [OF n, of 9 "[''PATH=/bin'']"] m
  have l: "ListenAndServeHttp example_names example_os (init_globals example_names 9 [''PATH=/bin''])
        example_hooks [SIGINT] ''tcp'' ''localhost:8778'' None
      = StartMainProcess example_names example_os (init_globals example_names 9 [''PATH=/bin''])
          example_hooks [SIGINT]"
    by blast
  from w e m l show ?thesis by blast
qed

section \<open>Properties of the process spawner\<close>

lemma copy_env_filter: "copy_env pfx es env = env @ filter (\<lambda>v. \<not> HasPrefix v pfx) es"
  by (induction es arbitrary: env) auto

lemma child_env_filter:
  "child_env N environ envValues = filter (\<lambda>v. \<not> HasPrefix v (envPrefix N)) environ @ envValues"
  by (simp add: child_env_def copy_env_filter)

lemma entry_key_prefix:
  assumes "entry_key s = Some key" and "HasPrefix key p"
  shows "HasPrefix s p"
proof -
  from assms(1) obtain r where s: "s = key @ r"
    using entry_decompose by blast
  from assms(2) show ?thesis
    by (auto simp: HasPrefix_def s)
qed

lemma Getenv_append_no_key:
  assumes "\<forall>s\<in>set xs. entry_key s \<noteq> Some key"
  shows "Getenv (xs @ ys) key = Getenv ys key"
  using assms by (induction xs) auto

lemma Getenv_child_env:
  assumes "HasPrefix key (envPrefix N)"
  shows "Getenv (child_env N environ envValues) key = Getenv envValues key"
proof -
  have "\<forall>s\<in>set (filter (\<lambda>v. \<not> HasPrefix v (envPrefix N)) environ). entry_key s \<noteq> Some key"
    using assms entry_key_prefix by auto
  then show ?thesis
    by (simp add: child_env_filter Getenv_append_no_key)
qed

lemma forkProcess_events:
  "set (snd (forkProcess N os n envValues)) \<subseteq>
     {EvStartProcess filePath dir (child_env N (Environ os) envValues) | filePath dir. True}"
  by (auto simp: forkProcess_def Let_def split: sum.splits)

text \<open>
  C5: the environment \<open>forkProcess\<close> starts a child with has no variable with the handshake
  prefix other than those of the values it was called with, and what the child reads for
  any name with the prefix is what these values say, whatever the environment of the
  parent holds.
\<close>

theorem forkProcess_env_sanitized:
  assumes "EvStartProcess filePath dir env \<in> set (snd (forkProcess N os n envValues))"
  shows "(\<forall>v\<in>set env. HasPrefix v (envPrefix N) \<longrightarrow> v \<in> set envValues)
       \<and> (\<forall>key. HasPrefix key (envPrefix N) \<longrightarrow> Getenv env key = Getenv envValues key)"
proof -
  from assms forkProcess_events have env: "env = child_env N (Environ os) envValues"
    by fastforce
  have "\<forall>v\<in>set env. HasPrefix v (envPrefix N) \<longrightarrow> v \<in> set envValues"
    by (auto simp: env child_env_filter)
  moreover have "\<forall>key. HasPrefix key (envPrefix N) \<longrightarrow> Getenv env key = Getenv envValues key"
    by (simp add: env Getenv_child_env)
  ultimately show ?thesis ..
qed

theorem forkProcess_env_sanitized_witness:
  "EvStartProcess ''/srv/server'' ''/srv''
     [''PATH=/bin'', ''GOPHERPACK_PPID=77'', ''GOPHERPACK_CPU_CORE=1''] \<in>
   set (snd (forkProcess example_names
              (example_os \<lparr> Environ := [''PATH=/bin'', ''GOPHERPACK_PPID=42'', ''GOPHERPACK_CPU_CORE=0'',
                                        ''GOPHERPACK_PREV_PPID=7''] \<rparr>)
              0 [''GOPHERPACK_PPID=77'', ''GOPHERPACK_CPU_CORE=1'']))
   \<and> HasPrefix ''GOPHERPACK_CPU_CORE=1'' (envPrefix example_names)
   \<and> HasPrefix ''GOPHERPACK_PREV_PPID'' (envPrefix example_names)
   \<and> Getenv [''PATH=/bin'', ''GOPHERPACK_PPID=77'', ''GOPHERPACK_CPU_CORE=1'']
        ''GOPHERPACK_PREV_PPID'' = []
   \<and> Getenv [''PATH=/bin'', ''GOPHERPACK_PPID=77'', ''GOPHERPACK_CPU_CORE=1'']
        ''GOPHERPACK_CPU_CORE'' = ''1''"
proof -
  let ?os = "example_os \<lparr> Environ := [''PATH=/bin'', ''GOPHERPACK_PPID=42'', ''GOPHERPACK_CPU_CORE=0'',
                                        ''GOPHERPACK_PREV_PPID=7''] \<rparr>"
  let ?vals = "[''GOPHERPACK_PPID=77'', ''GOPHERPACK_CPU_CORE=1'']"
  let ?env = "[''PATH=/bin'', ''GOPHERPACK_PPID=77'', ''GOPHERPACK_CPU_CORE=1'']"
  have ev: "EvStartProcess ''/srv/server'' ''/srv'' ?env \<in>
              set (snd (forkProcess example_names ?os 0 ?vals))"
    by (simp add: forkProcess_def child_env_def example_os_def example_names_def HasPrefix_def)
  have p: "HasPrefix ''GOPHERPACK_CPU_CORE=1'' (envPrefix example_names)"
          "HasPrefix ''GOPHERPACK_PREV_PPID'' (envPrefix example_names)"
          "HasPrefix ''GOPHERPACK_CPU_CORE'' (envPrefix example_names)"
    by (simp_all add: example_names_def HasPrefix_def)
  from forkProcess_env_sanitized [OF ev] p
  have "Getenv ?env ''GOPHERPACK_PREV_PPID'' = Getenv ?vals ''GOPHERPACK_PREV_PPID''"
       "Getenv ?env ''GOPHERPACK_CPU_CORE'' = Getenv ?vals ''GOPHERPACK_CPU_CORE''"
    by blast+
  then have "Getenv ?env ''GOPHERPACK_PREV_PPID'' = []" "Getenv ?env ''GOPHERPACK_CPU_CORE'' = ''1''"
    by (simp_all add: entry_key_def entry_value_def)
  with ev p show ?thesis by blast
qed

section \<open>Properties of the socket factory\<close>

lemma Join_contains:
  "m \<in> set ms \<Longrightarrow> \<exists>ps ss. Join ms sep = ps @ m @ ss"
proof (induction ms sep rule: Join.induct)
  case (1 sep)
  then show ?case by simp
next
  case (2 a sep)
  then have "Join [a] sep = [] @ m @ []" by simp
  then show ?case by blast
next
  case (3 a b elems sep)
  show ?case
  proof (cases "m = a")
    case True
    then have "Join (a # b # elems) sep = [] @ m @ (sep @ Join (b # elems) sep)" by simp
    then show ?thesis by blast
  next
    case False
    with 3 obtain ps ss where "Join (b # elems) sep = ps @ m @ ss" by auto
    then have "Join (a # b # elems) sep = (a @ sep @ ps) @ m @ ss" by simp
    then show ?thesis by blast
  qed
qed

lemma Control_eq:
  "Control c = (if option_errors c = [] then None
                else Some (ErrorString (Join (option_errors c) '';'')))"
  by (cases "rawControl c"; cases "setReuseAddr c"; cases "setReusePort c")
     (simp_all add: Control_def option_errors_def)

text \<open>
  The \<open>Control\<close> function by itself: it returns nil exactly when the control callback and
  both options succeeded, and otherwise one error whose message is the messages of all the
  failures joined with \<open>;\<close>, on which \<open>Listen\<close> hands out no listener but that error.
\<close>

lemma Control_aggregates_errors:
  "(Control c = None \<longleftrightarrow> rawControl c = None \<and> setReuseAddr c = None \<and> setReusePort c = None)
   \<and> (\<forall>e. Control c = Some e \<longrightarrow>
          e = ErrorString (Join (option_errors c) '';'')
          \<and> (\<forall>m. Some m \<in> {rawControl c, setReuseAddr c, setReusePort c} \<longrightarrow>
                 m \<in> set (option_errors c) \<and> (\<exists>ps ss. Join (option_errors c) '';'' = ps @ m @ ss))
          \<and> Listen c network address = (None, Some (OpError ''listen'' e)))
   \<and> (\<forall>os l. socket os = c \<longrightarrow> Control c = None \<longrightarrow> bind c = Inr l \<longrightarrow>
          getListenerWithSocketOptions os network address
            = (Return (Some l, None), [EvListen network address]))"
proof -
  have ok: "getListenerWithSocketOptions os network address
            = (Return (Some l, None), [EvListen network address])"
    if "socket os = c" "Control c = None" "bind c = Inr l" for os l
    using that by (simp add: getListenerWithSocketOptions_def Listen_def)
  have mem: "m \<in> set (option_errors c)"
    if "Some m \<in> {rawControl c, setReuseAddr c, setReusePort c}" for m
    using that
    by (cases "rawControl c"; cases "setReuseAddr c"; cases "setReusePort c")
       (auto simp: option_errors_def)
  have none: "Control c = None \<longleftrightarrow> rawControl c = None \<and> setReuseAddr c = None \<and> setReusePort c = None"
    by (cases "rawControl c"; cases "setReuseAddr c"; cases "setReusePort c")
       (simp_all add: Control_def)
  have some: "e = ErrorString (Join (option_errors c) '';'')" if "Control c = Some e" for e
    using that by (simp add: Control_eq split: if_splits)
  have lst: "Listen c network address = (None, Some (OpError ''listen'' e))" if "Control c = Some e" for e
    using that by (simp add: Listen_def)
  from none some lst mem Join_contains ok show ?thesis by blast
qed

lemma getListener_panics_on_failure:
  assumes "snd (Listen (socket os) network address) \<noteq> None"
  shows "fst (getListenerWithSocketOptions os network address) = Panic nil_dereference"
  using assms
  by (auto simp: getListenerWithSocketOptions_def Listen_def split: option.splits sum.splits)

lemma getListener_panics_on_option_failure:
  assumes "Control (socket os) = Some e"
  shows "getListenerWithSocketOptions os network address
           = (Panic nil_dereference, [EvListen network address])"
  using assms by (simp add: getListenerWithSocketOptions_def Listen_def)

text \<open>
  C8: a socket on which the address-reuse and the port-reuse option both fail. The
  \<open>Control\<close> function joins the two messages into one error and \<open>Listen\<close> fails with it,
  but \<open>getListenerWithSocketOptions\<close> does not return it: the branch \<open>err != nil\<close>
  evaluates \<open>l.Addr()\<close> on the nil listener and the call panics, so the combined error
  never reaches the caller.
\<close>

theorem getListenerWithSocketOptions_option_failure_not_returned:
  "Control \<lparr> rawControl = None, setReuseAddr = Some ''operation not permitted'',
             setReusePort = Some ''protocol not available'',
             bind = Inr (Listener ''127.0.0.1:8778'') \<rparr>
     = Some (ErrorString ''operation not permitted;protocol not available'')
   \<and> Listen \<lparr> rawControl = None, setReuseAddr = Some ''operation not permitted'',
              setReusePort = Some ''protocol not available'',
              bind = Inr (Listener ''127.0.0.1:8778'') \<rparr> ''tcp'' ''localhost:8778''
     = (None, Some (OpError ''listen''
                      (ErrorString ''operation not permitted;protocol not available'')))
   \<and> getListenerWithSocketOptions
        (example_os \<lparr> socket := \<lparr> rawControl = None, setReuseAddr = Some ''operation not permitted'',
                                 setReusePort = Some ''protocol not available'',
                                 bind = Inr (Listener ''127.0.0.1:8778'') \<rparr> \<rparr>)
        ''tcp'' ''localhost:8778''
     = (Panic nil_dereference, [EvListen ''tcp'' ''localhost:8778''])"
  by (simp add: getListenerWithSocketOptions_def Listen_def Control_def example_os_def)

text \<open>
  C10: when \<open>Listen\<close> fails, \<open>getListenerWithSocketOptions\<close> does not return the error: it
  takes the branch \<open>err != nil\<close> and evaluates \<open>l.Addr()\<close> on the nil listener. Here the
  address is already in use.
\<close>

theorem getListenerWithSocketOptions_bind_failure_panics:
  "getListenerWithSocketOptions
     (example_os \<lparr> socket := \<lparr> rawControl = None, setReuseAddr = None, setReusePort = None,
                              bind = Inl (ErrorString ''bind: address already in use'') \<rparr> \<rparr>)
     ''tcp'' ''localhost:8778''
   = (Panic nil_dereference, [EvListen ''tcp'' ''localhost:8778''])"
  by (simp add: getListenerWithSocketOptions_def Listen_def Control_def example_os_def)

section \<open>Properties of the worker runtime setup\<close>

text \<open>
  C6: a worker with core index 3 on which \<open>system.SetAffinity\<close> fails.
  \<open>setupWorkerRuntime\<close> logs the failure and returns it, \<open>runtime.GOMAXPROCS(1)\<close> is not
  reached, and the entry point returns the error before it opens a listener.
\<close>

theorem setupWorkerRuntime_affinity_failure_is_returned:
  "setupWorkerRuntime (example_os \<lparr> SetAffinity := (\<lambda>cpuCore. Some (ErrorString ''invalid argument'')) \<rparr>)
     (init_globals example_names 1001 [''GOPHERPACK_PPID=1000'', ''GOPHERPACK_CPU_CORE=3''])
   = (Some (ErrorString ''invalid argument''),
      [EvSetAffinity 3,
       Printf ''Could not set affinity to CPU core %d: %s'' [AInt 3, AErr (ErrorString ''invalid argument'')]])
   \<and> res (ListenAndServeHttp example_names
            (example_os \<lparr> SetAffinity := (\<lambda>cpuCore. Some (ErrorString ''invalid argument'')) \<rparr>)
            (init_globals example_names 1001 [''GOPHERPACK_PPID=1000'', ''GOPHERPACK_CPU_CORE=3''])
            example_hooks [] ''tcp'' ''localhost:8778''
            (Some \<lparr> TLSConfig = False, Serve = (\<lambda>l. Blocked), ServeTLS = (\<lambda>l. Blocked), Shutdown = None \<rparr>))
     = Returned (Some (ErrorString ''invalid argument''))"
proof -
  let ?g = "init_globals example_names 1001 [''GOPHERPACK_PPID=1000'', ''GOPHERPACK_CPU_CORE=3'']"
  have g: "?g = \<lparr> pid = 1001, isMainProcess = False, workerCpuCore = ''3'' \<rparr>"
    by (simp add: init_globals_def example_names_def entry_key_def entry_value_def)
  have a: "Atoi ''3'' = Inr 3"
    by (simp add: Atoi_def is_digit_def digit_val_def)
  show ?thesis
    unfolding g by (simp add: setupWorkerRuntime_def a example_os_def ListenAndServeHttp_def)
qed

text \<open>
  C9: in a worker whose core-index variable does not parse as an integer,
  \<open>setupWorkerRuntime\<close> returns the error of \<open>strconv.Atoi\<close> and does nothing else, and each
  of the three entry points returns that error with no event at all: no affinity call
  with some other core, no listener, no goroutine.
\<close>

theorem malformed_core_index_is_fatal:
  assumes "Getenv environ (envPPID N) \<noteq> []"
    and "Atoi (Getenv environ (envCPUCore N)) = Inl e"
    and "g = init_globals N p environ"
  shows "setupWorkerRuntime os g = (Some e, [])
       \<and> ListenAndServeHttp N os g h sigs network address (Some hsrv)
           = \<lparr> res = Returned (Some e), main_events = [], goroutines = [] \<rparr>
       \<and> ListenAndServeGRPC N os g h sigs network address (Some gsrv)
           = \<lparr> res = Returned (Some e), main_events = [], goroutines = [] \<rparr>
       \<and> ListenAndServeTCP N os g h sigs network address tlsConfig accepts
           = \<lparr> res = Returned (Some e), main_events = [], goroutines = [] \<rparr>"
proof -
  from assms have w: "\<not> isMainProcess g" and c: "Atoi (workerCpuCore g) = Inl e"
    by (simp_all add: init_globals_def)
  from c have s: "setupWorkerRuntime os g = (Some e, [])"
    by (simp add: setupWorkerRuntime_def)
  from w s show ?thesis
    by (simp add: ListenAndServeHttp_def ListenAndServeGRPC_def ListenAndServeTCP_def)
qed

theorem malformed_core_index_is_fatal_witness:
  "Getenv [''GOPHERPACK_PPID=1000'', ''GOPHERPACK_CPU_CORE=two''] (envPPID example_names) \<noteq> []
   \<and> Atoi (Getenv [''GOPHERPACK_PPID=1000'', ''GOPHERPACK_CPU_CORE=two''] (envCPUCore example_names))
       = Inl (NumError ''Atoi'' ''two'' ErrSyntax)
   \<and> ListenAndServeHttp example_names example_os
        (init_globals example_names 1001 [''GOPHERPACK_PPID=1000'', ''GOPHERPACK_CPU_CORE=two''])
        example_hooks [] ''tcp'' ''localhost:8778''
        (Some \<lparr> TLSConfig = False, Serve = (\<lambda>l. Blocked), ServeTLS = (\<lambda>l. Blocked), Shutdown = None \<rparr>)
      = \<lparr> res = Returned (Some (NumError ''Atoi'' ''two'' ErrSyntax)), main_events = [], goroutines = [] \<rparr>"
proof -
  let ?env = "[''GOPHERPACK_PPID=1000'', ''GOPHERPACK_CPU_CORE=two'']"
  have p: "Getenv ?env (envPPID example_names) \<noteq> []"
    by (simp add: example_names_def entry_key_def entry_value_def)
  have c: "Getenv ?env (envCPUCore example_names) = ''two''"
    by (simp add: example_names_def entry_key_def entry_value_def)
  have a: "Atoi (Getenv ?env (envCPUCore example_names)) = Inl (NumError ''Atoi'' ''two'' ErrSyntax)"
    unfolding c by (simp add: Atoi_def is_digit_def)
  from malformed_core_index_is_fatal [OF p a refl] p a show ?thesis by blast
qed

section \<open>Properties of the shutdown coordinator\<close>

lemma call_hook_count: "count_list (call_hook name fmt p hk) (EvHook name) \<le> 1"
  by (cases hk rule: option.exhaust; simp add: call_hook_def split: hook.splits)

lemma call_hook_no_stop:
  "EvShutdown \<notin> set (call_hook name fmt p hk)" "EvGracefulStop \<notin> set (call_hook name fmt p hk)"
  by (auto simp: call_hook_def split: option.splits hook.splits)

lemma worker_goroutines:
  assumes "\<not> isMainProcess g"
    and "fst (setupWorkerRuntime os g) = None"
    and "fst (getListenerWithSocketOptions os network address) = Return (Some lst, None)"
  shows "goroutines (ListenAndServeHttp N os g h sigs network address (Some hsrv))
           = [http_shutdown g h hsrv sigs]"
    and "goroutines (ListenAndServeGRPC N os g h sigs network address (Some gsrv))
           = [grpc_shutdown g h sigs]"
  using assms
  by (auto simp: ListenAndServeHttp_def ListenAndServeGRPC_def split: prod.splits option.splits outcome.splits)

text \<open>
  C7: the goroutine of a worker that has received a signal. When the hook
  \<open>OnServerShutdown\<close> panics, the panic is recovered and logged and \<open>server.Shutdown\<close>
  (\<open>GracefulStop\<close> for gRPC) is called after it. Whatever the hook is, the goroutine runs to
  its end, stops the server exactly once and calls the hook at most once; and it is the
  goroutine the entry point starts once the listener exists.
\<close>

theorem shutdown_hook_isolated:
  "(\<forall>v. OnServerShutdown h = Some (HookPanics v) \<longrightarrow>
        http_shutdown g h hsrv (sig # sigs) =
          Finished ([Printf ''Worker process PID=%d recivied signal: %s. Shutdown gracefully''
                       [AInt (pid g), ASig sig],
                     EvHook ''OnServerShutdown'',
                     Printf ''Worker process PID=%d OnServerShutdown hook panicked: %s''
                       [AInt (pid g), AStr v],
                     EvShutdown] @
                    (case Shutdown hsrv of
                       Some err \<Rightarrow>
                         [Printf ''Worker process PID=%d could not shutdown gracefully: %s''
                            [AInt (pid g), AErr err]]
                     | None \<Rightarrow> []))
      \<and> grpc_shutdown g h (sig # sigs) =
          Finished [Printf ''Worker process PID=%d received signal: %s. Shutdown gracefully''
                      [AInt (pid g), ASig sig],
                    EvHook ''OnServerShutdown'',
                    Printf ''Worker process PID=%d OnServerShutdown hook panicked: %s''
                      [AInt (pid g), AStr v],
                    EvGracefulStop])
   \<and> finished (http_shutdown g h hsrv (sig # sigs))
   \<and> finished (grpc_shutdown g h (sig # sigs))
   \<and> count_list (task_events (http_shutdown g h hsrv (sig # sigs))) EvShutdown = 1
   \<and> count_list (task_events (grpc_shutdown g h (sig # sigs))) EvGracefulStop = 1
   \<and> count_list (task_events (http_shutdown g h hsrv (sig # sigs))) (EvHook ''OnServerShutdown'') \<le> 1
   \<and> count_list (task_events (grpc_shutdown g h (sig # sigs))) (EvHook ''OnServerShutdown'') \<le> 1
   \<and> (\<not> isMainProcess g \<longrightarrow> fst (setupWorkerRuntime os g) = None \<longrightarrow>
        fst (getListenerWithSocketOptions os network address) = Return (Some lst, None) \<longrightarrow>
        goroutines (ListenAndServeHttp N os g h (sig # sigs) network address (Some hsrv))
          = [http_shutdown g h hsrv (sig # sigs)]
        \<and> goroutines (ListenAndServeGRPC N os g h (sig # sigs) network address (Some gsrv))
          = [grpc_shutdown g h (sig # sigs)])"
proof -
  let ?hk = "call_hook ''OnServerShutdown'' ''Worker process PID=%d OnServerShutdown hook panicked: %s''
               (pid g) (OnServerShutdown h)"
  have c: "count_list ?hk (EvHook ''OnServerShutdown'') \<le> 1"
    by (rule call_hook_count)
  have n: "count_list ?hk EvShutdown = 0" "count_list ?hk EvGracefulStop = 0"
    using call_hook_no_stop by (simp_all add: count_list_0_iff)
  have p1: "\<forall>v. OnServerShutdown h = Some (HookPanics v) \<longrightarrow>
        http_shutdown g h hsrv (sig # sigs) =
          Finished ([Printf ''Worker process PID=%d recivied signal: %s. Shutdown gracefully''
                       [AInt (pid g), ASig sig],
                     EvHook ''OnServerShutdown'',
                     Printf ''Worker process PID=%d OnServerShutdown hook panicked: %s''
                       [AInt (pid g), AStr v],
                     EvShutdown] @
                    (case Shutdown hsrv of
                       Some err \<Rightarrow>
                         [Printf ''Worker process PID=%d could not shutdown gracefully: %s''
                            [AInt (pid g), AErr err]]
                     | None \<Rightarrow> []))
      \<and> grpc_shutdown g h (sig # sigs) =
          Finished [Printf ''Worker process PID=%d received signal: %s. Shutdown gracefully''
                      [AInt (pid g), ASig sig],
                    EvHook ''OnServerShutdown'',
                    Printf ''Worker process PID=%d OnServerShutdown hook panicked: %s''
                      [AInt (pid g), AStr v],
                    EvGracefulStop]"
    by (simp add: http_shutdown_def grpc_shutdown_def shutdown_hook_events_def call_hook_def)
  have p2: "finished (http_shutdown g h hsrv (sig # sigs))" "finished (grpc_shutdown g h (sig # sigs))"
    by (simp_all add: http_shutdown_def grpc_shutdown_def)
  have p3: "count_list (task_events (http_shutdown g h hsrv (sig # sigs))) EvShutdown = 1"
    using n by (simp add: http_shutdown_def shutdown_hook_events_def split: option.splits)
  have p4: "count_list (task_events (grpc_shutdown g h (sig # sigs))) EvGracefulStop = 1"
    using n by (simp add: grpc_shutdown_def shutdown_hook_events_def)
  have p5: "count_list (task_events (http_shutdown g h hsrv (sig # sigs))) (EvHook ''OnServerShutdown'') \<le> 1"
    using c by (simp add: http_shutdown_def shutdown_hook_events_def split: option.splits)
  have p6: "count_list (task_events (grpc_shutdown g h (sig # sigs))) (EvHook ''OnServerShutdown'') \<le> 1"
    using c by (simp add: grpc_shutdown_def shutdown_hook_events_def)
  from p1 p2 p3 p4 p5 p6 worker_goroutines show ?thesis by blast
qed

theorem shutdown_hook_isolated_witness:
  "OnServerShutdown example_hooks = Some (HookPanics ''boom'')
   \<and> \<not> isMainProcess \<lparr> pid = 1001, isMainProcess = False, workerCpuCore = ''3'' \<rparr>
   \<and> fst (setupWorkerRuntime example_os
            \<lparr> pid = 1001, isMainProcess = False, workerCpuCore = ''3'' \<rparr>) = None
   \<and> fst (getListenerWithSocketOptions example_os ''tcp'' ''localhost:8778'')
       = Return (Some (Listener ''127.0.0.1:8778''), None)
   \<and> goroutines (ListenAndServeGRPC example_names example_os
        \<lparr> pid = 1001, isMainProcess = False, workerCpuCore = ''3'' \<rparr>
        example_hooks [SIGTERM] ''tcp'' ''localhost:8778''
        (Some \<lparr> grpcServe = (\<lambda>l. Returned None) \<rparr>))
      = [Finished [Printf ''Worker process PID=%d received signal: %s. Shutdown gracefully''
                     [AInt 1001, ASig SIGTERM],
                   EvHook ''OnServerShutdown'',
                   Printf ''Worker process PID=%d OnServerShutdown hook panicked: %s''
                     [AInt 1001, AStr ''boom''],
                   EvGracefulStop]]"
proof -
  let ?g = "\<lparr> pid = 1001, isMainProcess = False, workerCpuCore = ''3'' \<rparr>"
  let ?srv = "\<lparr> grpcServe = (\<lambda>l. Returned None) \<rparr>"
  have hk: "OnServerShutdown example_hooks = Some (HookPanics ''boom'')"
    by (simp add: example_hooks_def)
  have w: "\<not> isMainProcess ?g" by simp
  have a: "Atoi ''3'' = Inr 3"
    by (simp add: Atoi_def is_digit_def digit_val_def)
  have su: "fst (setupWorkerRuntime example_os ?g) = None"
    by (simp add: setupWorkerRuntime_def a example_os_def)
  have li: "fst (getListenerWithSocketOptions example_os ''tcp'' ''localhost:8778'')
              = Return (Some (Listener ''127.0.0.1:8778''), None)"
    by (simp add: getListenerWithSocketOptions_def Listen_def Control_def example_os_def)
  note t = shutdown_hook_isolated [where h = example_hooks and g = ?g and sig = SIGTERM
             and sigs = "[]" and os = example_os and network = "''tcp''"
             and address = "''localhost:8778''" and lst = "Listener ''127.0.0.1:8778''"
             and N = example_names and gsrv = ?srv]
  from t hk have "grpc_shutdown ?g example_hooks [SIGTERM] =
          Finished [Printf ''Worker process PID=%d received signal: %s. Shutdown gracefully''
                      [AInt (pid ?g), ASig SIGTERM],
                    EvHook ''OnServerShutdown'',
                    Printf ''Worker process PID=%d OnServerShutdown hook panicked: %s''
                      [AInt (pid ?g), AStr ''boom''],
                    EvGracefulStop]"
    by blast
  moreover from t w su li
  have "goroutines (ListenAndServeGRPC example_names example_os ?g example_hooks [SIGTERM]
          ''tcp'' ''localhost:8778'' (Some ?srv)) = [grpc_shutdown ?g example_hooks [SIGTERM]]"
    by blast
  ultimately show ?thesis using hk w su li by simp
qed

section \<open>Properties of the supervisor\<close>

subsection \<open>The loop over the cores\<close>

lemma spawn_workers_fold:
  "spawn_workers N os g k i st = fold (spawn_worker N os g) [i..<k] st"
proof (induction N os g k i st rule: spawn_workers.induct)
  case (1 N os g numCPU i st)
  show ?case
  proof (cases "i < numCPU")
    case True
    then have "[i..<numCPU] = i # [Suc i..<numCPU]" by (simp add: upt_conv_Cons)
    with True 1 show ?thesis by (subst spawn_workers.simps) simp
  next
    case False
    then show ?thesis by (subst spawn_workers.simps) simp
  qed
qed

lemma spawn_worker_eq:
  "nfork st = i \<Longrightarrow>
   spawn_worker N os g i st =
     \<lparr> workers = (workers st)[i := slot_of (fst (fork_worker N os g i))],
       nfork = Suc i,
       events = events st @ snd (fork_worker N os g i) @ [spawn_log i (fst (fork_worker N os g i))] \<rparr>"
  by (simp add: spawn_worker_def fork_worker_def slot_of_def spawn_log_def Let_def
           split: prod.splits sum.splits)

lemma spawn_fold_inv:
  assumes "i \<le> k" and "nfork st = i"
  shows "nfork (fold (spawn_worker N os g) [i..<k] st) = k
       \<and> length (workers (fold (spawn_worker N os g) [i..<k] st)) = length (workers st)
       \<and> (\<forall>j<length (workers st).
             workers (fold (spawn_worker N os g) [i..<k] st) ! j =
               (if i \<le> j \<and> j < k then slot_of (fst (fork_worker N os g j)) else workers st ! j))
       \<and> events (fold (spawn_worker N os g) [i..<k] st) =
           events st @ concat (map (spawn_events N os g) [i..<k])"
  using assms
proof (induction k rule: dec_induct)
  case base
  then show ?case by auto
next
  case (step n)
  let ?r = "fold (spawn_worker N os g) [i..<n] st"
  from step have ih: "nfork ?r = n" "length (workers ?r) = length (workers st)"
    "\<forall>j<length (workers st). workers ?r ! j =
               (if i \<le> j \<and> j < n then slot_of (fst (fork_worker N os g j)) else workers st ! j)"
    "events ?r = events st @ concat (map (spawn_events N os g) [i..<n])"
    by blast+
  from step(1) have f: "fold (spawn_worker N os g) [i..<Suc n] st = spawn_worker N os g n ?r"
    by simp
  note e = spawn_worker_eq [OF ih(1), of N os g]
  have "nfork (spawn_worker N os g n ?r) = Suc n" by (simp add: e)
  moreover have "length (workers (spawn_worker N os g n ?r)) = length (workers st)"
    by (simp add: e ih(2))
  moreover have "\<forall>j<length (workers st). workers (spawn_worker N os g n ?r) ! j =
               (if i \<le> j \<and> j < Suc n then slot_of (fst (fork_worker N os g j)) else workers st ! j)"
  proof (intro allI impI)
    fix j assume j: "j < length (workers st)"
    show "workers (spawn_worker N os g n ?r) ! j =
               (if i \<le> j \<and> j < Suc n then slot_of (fst (fork_worker N os g j)) else workers st ! j)"
    proof (cases "j = n")
      case True
      with j ih(2) step(1) show ?thesis by (simp add: e)
    next
      case False
      with j ih(3) have "workers (spawn_worker N os g n ?r) ! j =
               (if i \<le> j \<and> j < n then slot_of (fst (fork_worker N os g j)) else workers st ! j)"
        by (simp add: e)
      with False show ?thesis by (simp add: less_Suc_eq)
    qed
  qed
  moreover have "events (spawn_worker N os g n ?r) =
           events st @ concat (map (spawn_events N os g) [i..<Suc n])"
    using step(1) by (simp add: e ih(4) spawn_events_def)
  ultimately show ?case unfolding f by blast
qed

lemma wf_namesD:
  assumes "wf_names N"
  shows "envPPID N \<noteq> []" "envCPUCore N \<noteq> []" "envPrevPPID N \<noteq> []"
    and "CHR ''='' \<notin> set (envPPID N)" "CHR ''='' \<notin> set (envCPUCore N)" "CHR ''='' \<notin> set (envPrevPPID N)"
    and "HasPrefix (envPPID N) (envPrefix N)" "HasPrefix (envCPUCore N) (envPrefix N)"
        "HasPrefix (envPrevPPID N) (envPrefix N)"
    and "envPPID N \<noteq> envCPUCore N" "envPPID N \<noteq> envPrevPPID N" "envCPUCore N \<noteq> envPrevPPID N"
  using assms by (auto simp: wf_names_def)

lemma Getenv_worker_envVals:
  assumes "wf_names N"
  shows "Getenv (worker_envVals N g i) (envPPID N) = itoa (pid g)"
    and "Getenv (worker_envVals N g i) (envCPUCore N) = itoa (int i)"
    and "Getenv (worker_envVals N g i) (envPrevPPID N) = []"
  using wf_namesD [OF assms]
  by (simp_all add: worker_envVals_def entry_key_mk entry_value_mk)

lemma worker_child_env:
  assumes "wf_names N"
    and "EvStartProcess filePath dir env \<in> set (snd (fork_worker N os g i))"
  shows "Getenv env (envPPID N) = itoa (pid g)"
    and "Getenv env (envCPUCore N) = itoa (int i)"
    and "Getenv env (envPrevPPID N) = []"
proof -
  from assms(2) forkProcess_events have env: "env = child_env N (Environ os) (worker_envVals N g i)"
    unfolding fork_worker_def by fastforce
  show "Getenv env (envPPID N) = itoa (pid g)"
    and "Getenv env (envCPUCore N) = itoa (int i)"
    and "Getenv env (envPrevPPID N) = []"
    using wf_namesD [OF assms(1)]
    by (simp_all add: env Getenv_child_env Getenv_worker_envVals [OF assms(1)])
qed

lemma spawned_props:
  "nfork (spawned N os g) = NumCPU os"
  "length (workers (spawned N os g)) = NumCPU os"
  "\<forall>i<NumCPU os. workers (spawned N os g) ! i = slot_of (fst (fork_worker N os g i))"
  "events (spawned N os g) =
     events (initial_sup (NumCPU os) g) @ concat (map (spawn_events N os g) [0..<NumCPU os])"
proof -
  have i: "nfork (initial_sup (NumCPU os) g) = 0" "length (workers (initial_sup (NumCPU os) g)) = NumCPU os"
    by (simp_all add: initial_sup_def)
  note inv = spawn_fold_inv [OF le0 i(1), where k = "NumCPU os" and N = N and os = os and g = g]
  show "nfork (spawned N os g) = NumCPU os"
    using inv by (simp add: spawned_def spawn_workers_fold)
  show "length (workers (spawned N os g)) = NumCPU os"
    using inv i(2) by (simp add: spawned_def spawn_workers_fold)
  show "\<forall>i<NumCPU os. workers (spawned N os g) ! i = slot_of (fst (fork_worker N os g i))"
    using inv i(2) by (simp add: spawned_def spawn_workers_fold)
  show "events (spawned N os g) =
     events (initial_sup (NumCPU os) g) @ concat (map (spawn_events N os g) [0..<NumCPU os])"
    using inv by (simp add: spawned_def spawn_workers_fold)
qed

lemma StartMainProcess_loop:
  "StartMainProcess N os g h sigs =
     signal_loop N os g h sigs
       (if Getenv (Environ os) (envPrevPPID N) \<noteq> []
        then [kill_prev os g (Getenv (Environ os) (envPrevPPID N))] else [])
       (spawned N os g)"
  by (simp add: StartMainProcess_def spawned_def Let_def)

lemma example_globals_eq:
  "example_globals = \<lparr> pid = 4242, isMainProcess = True, workerCpuCore = [] \<rparr>"
  by (simp add: example_globals_def init_globals_def example_os_def example_names_def
        entry_key_def entry_value_def)

lemma example_wf: "wf_names example_names"
  by (simp add: wf_names_def example_names_def HasPrefix_def)

lemma example_fork_worker:
  "fork_worker example_names example_os example_globals 2 =
     (Inl (ErrorString ''fork/exec /srv/server: resource temporarily unavailable''),
      [EvStartProcess ''/srv/server'' ''/srv''
         [''PATH=/bin'', ''HOME=/root'', ''GOPHERPACK_PPID=4242'', ''GOPHERPACK_CPU_CORE=2'']])"
  "fork_worker example_names example_os example_globals 3 =
     (Inr (Process 1003),
      [EvStartProcess ''/srv/server'' ''/srv''
         [''PATH=/bin'', ''HOME=/root'', ''GOPHERPACK_PPID=4242'', ''GOPHERPACK_CPU_CORE=3'']])"
  by (simp_all add: fork_worker_def forkProcess_def worker_envVals_def child_env_def
        example_os_def example_names_def example_globals_eq HasPrefix_def
        itoa_def nat_digits.simps digit_char_def)

text \<open>
  C4: with \<open>k\<close> cores the loop makes exactly \<open>k\<close> calls of \<open>forkProcess\<close>, the call for
  core \<open>i\<close> being call number \<open>i\<close> with the values of worker \<open>i\<close>; the pool has \<open>k\<close> slots
  and slot \<open>i\<close> holds the process of attempt \<open>i\<close>, or nil when the attempt failed, in which
  case the failure is logged; the other attempts are made all the same. The environment a
  child is started with carries the parent's process id and the core index \<open>i\<close>, which the
  child parses back to \<open>i\<close>. After the loop the supervisor is in its signal loop: with no
  signal it waits.
\<close>

theorem pool_construction:
  "nfork (spawned N os g) = NumCPU os
   \<and> length (pool N os g) = NumCPU os
   \<and> events (spawned N os g) =
       events (initial_sup (NumCPU os) g) @ concat (map (spawn_events N os g) [0..<NumCPU os])
   \<and> (\<forall>i<NumCPU os.
         pool N os g ! i = slot_of (fst (fork_worker N os g i))
         \<and> (\<forall>err. fst (fork_worker N os g i) = Inl err \<longrightarrow>
               pool N os g ! i = None
               \<and> Printf ''Could not start worker process. Error: %s'' [AErr err]
                   \<in> set (events (spawned N os g)))
         \<and> (\<forall>filePath dir env. wf_names N \<longrightarrow>
               EvStartProcess filePath dir env \<in> set (snd (fork_worker N os g i)) \<longrightarrow>
               EvStartProcess filePath dir env \<in> set (events (spawned N os g))
               \<and> Getenv env (envPPID N) = itoa (pid g)
               \<and> Getenv env (envCPUCore N) = itoa (int i)
               \<and> (int i < 2 ^ 63 \<longrightarrow> Atoi (Getenv env (envCPUCore N)) = Inr (int i))))
   \<and> StartMainProcess N os g h sigs =
       signal_loop N os g h sigs
         (if Getenv (Environ os) (envPrevPPID N) \<noteq> []
          then [kill_prev os g (Getenv (Environ os) (envPrevPPID N))] else [])
         (spawned N os g)
   \<and> res (StartMainProcess N os g h []) = Blocked"
proof -
  note sp = spawned_props [where N = N and os = os and g = g]
  have in_events: "set (spawn_events N os g i) \<subseteq> set (events (spawned N os g))"
    if "i < NumCPU os" for i
    using that by (auto simp: sp(4))
  have slot: "\<forall>i<NumCPU os.
         pool N os g ! i = slot_of (fst (fork_worker N os g i))
         \<and> (\<forall>err. fst (fork_worker N os g i) = Inl err \<longrightarrow>
               pool N os g ! i = None
               \<and> Printf ''Could not start worker process. Error: %s'' [AErr err]
                   \<in> set (events (spawned N os g)))
         \<and> (\<forall>filePath dir env. wf_names N \<longrightarrow>
               EvStartProcess filePath dir env \<in> set (snd (fork_worker N os g i)) \<longrightarrow>
               EvStartProcess filePath dir env \<in> set (events (spawned N os g))
               \<and> Getenv env (envPPID N) = itoa (pid g)
               \<and> Getenv env (envCPUCore N) = itoa (int i)
               \<and> (int i < 2 ^ 63 \<longrightarrow> Atoi (Getenv env (envCPUCore N)) = Inr (int i)))"
  proof (intro allI impI conjI)
    fix i assume i: "i < NumCPU os"
    show p: "pool N os g ! i = slot_of (fst (fork_worker N os g i))"
      using sp(3) i by (simp add: pool_def)
    {
      fix err assume e: "fst (fork_worker N os g i) = Inl err"
      with p show "pool N os g ! i = None" by (simp add: slot_of_def)
      have "Printf ''Could not start worker process. Error: %s'' [AErr err] \<in> set (spawn_events N os g i)"
        by (simp add: spawn_events_def spawn_log_def e)
      with in_events [OF i]
      show "Printf ''Could not start worker process. Error: %s'' [AErr err] \<in> set (events (spawned N os g))"
        by blast
    }
    {
      fix filePath dir env
      assume wf: "wf_names N"
        and ev: "EvStartProcess filePath dir env \<in> set (snd (fork_worker N os g i))"
      from ev have "EvStartProcess filePath dir env \<in> set (spawn_events N os g i)"
        by (simp add: spawn_events_def)
      with in_events [OF i]
      show "EvStartProcess filePath dir env \<in> set (events (spawned N os g))" by blast
      show "Getenv env (envPPID N) = itoa (pid g)"
        and c: "Getenv env (envCPUCore N) = itoa (int i)"
        using worker_child_env [OF wf ev] by simp_all
      assume "int i < 2 ^ 63"
      then show "Atoi (Getenv env (envCPUCore N)) = Inr (int i)"
        by (simp add: c Atoi_itoa)
    }
  qed
  have b: "res (StartMainProcess N os g h []) = Blocked"
    by (simp add: StartMainProcess_loop)
  have l: "length (pool N os g) = NumCPU os"
    using sp(2) by (simp add: pool_def)
  have loop: "StartMainProcess N os g h sigs =
       signal_loop N os g h sigs
         (if Getenv (Environ os) (envPrevPPID N) \<noteq> []
          then [kill_prev os g (Getenv (Environ os) (envPrevPPID N))] else [])
         (spawned N os g)"
    by (rule StartMainProcess_loop)
  show ?thesis
    by (intro conjI) (rule sp(1) l sp(4) slot loop b)+
qed

theorem pool_construction_witness:
  "wf_names example_names
   \<and> NumCPU example_os = 4
   \<and> nfork (spawned example_names example_os example_globals) = 4
   \<and> length (pool example_names example_os example_globals) = 4
   \<and> fst (fork_worker example_names example_os example_globals 2)
       = Inl (ErrorString ''fork/exec /srv/server: resource temporarily unavailable'')
   \<and> pool example_names example_os example_globals ! 2 = None
   \<and> Printf ''Could not start worker process. Error: %s''
        [AErr (ErrorString ''fork/exec /srv/server: resource temporarily unavailable'')]
       \<in> set (events (spawned example_names example_os example_globals))
   \<and> pool example_names example_os example_globals ! 3 = Some (Process 1003)
   \<and> EvStartProcess ''/srv/server'' ''/srv''
        [''PATH=/bin'', ''HOME=/root'', ''GOPHERPACK_PPID=4242'', ''GOPHERPACK_CPU_CORE=3'']
       \<in> set (snd (fork_worker example_names example_os example_globals 3))
   \<and> Atoi (Getenv [''PATH=/bin'', ''HOME=/root'', ''GOPHERPACK_PPID=4242'', ''GOPHERPACK_CPU_CORE=3'']
              (envCPUCore example_names)) = Inr 3
   \<and> res (StartMainProcess example_names example_os example_globals example_hooks []) = Blocked"
proof -
  let ?N = example_names and ?os = example_os and ?g = example_globals
  note t = pool_construction [where N = ?N and os = ?os and g = ?g and h = example_hooks and sigs = "[]"]
  have n: "NumCPU ?os = 4" by (simp add: example_os_def)
  have lt: "(2::nat) < NumCPU ?os" "(3::nat) < NumCPU ?os" by (simp_all add: n)
  have f2: "fst (fork_worker ?N ?os ?g 2)
       = Inl (ErrorString ''fork/exec /srv/server: resource temporarily unavailable'')"
    by (simp add: example_fork_worker)
  have e3: "EvStartProcess ''/srv/server'' ''/srv''
        [''PATH=/bin'', ''HOME=/root'', ''GOPHERPACK_PPID=4242'', ''GOPHERPACK_CPU_CORE=3'']
       \<in> set (snd (fork_worker ?N ?os ?g 3))"
    by (simp add: example_fork_worker)
  have i3: "int 3 < 2 ^ 63" by simp
  from t n have a: "nfork (spawned ?N ?os ?g) = 4" "length (pool ?N ?os ?g) = 4"
    "res (StartMainProcess ?N ?os ?g example_hooks []) = Blocked"
    by simp_all
  from t lt(1) f2 have b: "pool ?N ?os ?g ! 2 = None"
    "Printf ''Could not start worker process. Error: %s''
        [AErr (ErrorString ''fork/exec /srv/server: resource temporarily unavailable'')]
       \<in> set (events (spawned ?N ?os ?g))"
    by blast+
  from t lt(2) have "pool ?N ?os ?g ! 3 = slot_of (fst (fork_worker ?N ?os ?g 3))"
    by blast
  then have c: "pool ?N ?os ?g ! 3 = Some (Process 1003)"
    by (simp add: example_fork_worker slot_of_def)
  from t lt(2) example_wf e3 i3
  have "Atoi (Getenv [''PATH=/bin'', ''HOME=/root'', ''GOPHERPACK_PPID=4242'', ''GOPHERPACK_CPU_CORE=3'']
              (envCPUCore ?N)) = Inr (int 3)"
    by blast
  then have d: "Atoi (Getenv [''PATH=/bin'', ''HOME=/root'', ''GOPHERPACK_PPID=4242'', ''GOPHERPACK_CPU_CORE=3'']
              (envCPUCore ?N)) = Inr 3"
    by simp
  from example_wf n a f2 b c e3 d show ?thesis by blast
qed

subsection \<open>The signal loop: shutdown\<close>

lemma StartMainProcess_prev:
  "StartMainProcess N os g h sigs = signal_loop N os g h sigs (prev_tasks N os g) (spawned N os g)"
  by (simp add: StartMainProcess_def spawned_def prev_tasks_def Let_def)

lemma upgrade_fields:
  "workers (upgrade N os g h st) = workers st"
  "nfork (upgrade N os g h st) = Suc (nfork st)"
  by (simp_all add: upgrade_def Let_def split: prod.splits)

lemma start_signal_workers_map:
  "start_signal_workers os sig ws = map (signal_worker os sig) (live ws)"
  by (induction ws rule: live.induct) simp_all

lemma set_live: "set (live ws) = {p. Some p \<in> set ws}"
  by (induction ws rule: live.induct) auto

lemma signal_loop_shutdown:
  assumes "set ups \<subseteq> {SIGUSR2}" and "shutdown_signal sig"
  shows "goroutines (signal_loop N os g h (ups @ sig # rest) ts st)
           = ts @ map (signal_worker os sig) (live (workers st))
       \<and> res (signal_loop N os g h (ups @ sig # rest) ts st)
           = (if list_all finished (map (signal_worker os sig) (live (workers st)))
              then Returned (Some (signal_error sig)) else Blocked)"
  using assms(1)
proof (induction ups arbitrary: st)
  case Nil
  from assms(2) show ?case
    by (simp add: shutdown_signal_def sendSignalToWorkers_def start_signal_workers_map
          signal_error_def Let_def)
next
  case (Cons u ups)
  then have u: "u = SIGUSR2" and ups: "set ups \<subseteq> {SIGUSR2}" by auto
  show ?case
    using Cons.IH [OF ups] by (simp add: u Let_def upgrade_fields)
qed

lemma signal_loop_upgrades:
  assumes "set sigs \<subseteq> {SIGUSR2}"
  shows "res (signal_loop N os g h sigs ts st) = Blocked"
    and "goroutines (signal_loop N os g h sigs ts st) = ts"
  using assms by (induction sigs arbitrary: st) (auto simp: Let_def)

lemma signal_loop_returns:
  assumes "res (signal_loop N os g h sigs ts st) \<noteq> Blocked"
  shows "\<exists>sig\<in>set sigs. shutdown_signal sig"
  using assms
proof (induction sigs arbitrary: st)
  case Nil
  then show ?case by simp
next
  case (Cons s sigs)
  show ?case
  proof (cases "shutdown_signal s")
    case True
    then show ?thesis by simp
  next
    case False
    with Cons.prems have "res (signal_loop N os g h sigs ts
        (upgrade N os g h (st \<lparr> events := events st @
           [Printf ''Main process PID=%d recivied signal: %s'' [AInt (pid g), ASig s]] \<rparr>))) \<noteq> Blocked"
      by (simp add: shutdown_signal_def Let_def)
    from Cons.IH [OF this] show ?thesis by simp
  qed
qed

lemma signal_worker_shape:
  "\<exists>evs. task_events (signal_worker os sig p) = EvSignal p sig # evs
         \<and> (\<forall>q s. EvSignal q s \<notin> set evs)
         \<and> (EvWait p \<in> set evs \<longleftrightarrow> Signal os p sig = None)"
  by (auto simp: signal_worker_def split: option.splits sum.splits)

lemma signal_worker_finished:
  "finished (signal_worker os sig p) \<longleftrightarrow> Signal os p sig \<noteq> None \<or> Wait os p \<noteq> None"
  by (auto simp: signal_worker_def split: option.splits sum.splits)

lemma signal_String_inj: "signal_String a = signal_String b \<Longrightarrow> a = b"
  by (cases a; cases b) simp_all

text \<open>
  C2: the signals received are upgrade requests followed by a terminating signal \<open>sig\<close>.
  \<open>StartMainProcess\<close> then starts one goroutine for every worker record of the pool that is
  not nil and for no other; the goroutine of worker \<open>p\<close> sends \<open>p\<close> that same signal first
  and sends no other signal, and waits for \<open>p\<close> exactly when the signal could be sent; it
  ends when the signal could not be sent or the wait has returned, with or without an
  error. \<open>StartMainProcess\<close> returns exactly when every wait that was started has
  returned, and what it returns is the error that names the signal; otherwise it is still
  waiting.
\<close>

theorem shutdown_fan_out:
  assumes "set ups \<subseteq> {SIGUSR2}" and "shutdown_signal sig"
  shows "goroutines (StartMainProcess N os g h (ups @ sig # rest))
           = prev_tasks N os g @ map (signal_worker os sig) (live (pool N os g))
       \<and> (\<forall>p. Some p \<in> set (pool N os g) \<longrightarrow>
             p \<in> set (live (pool N os g))
             \<and> (\<exists>evs. task_events (signal_worker os sig p) = EvSignal p sig # evs
                      \<and> (\<forall>q s. EvSignal q s \<notin> set evs)
                      \<and> (EvWait p \<in> set evs \<longleftrightarrow> Signal os p sig = None))
             \<and> (finished (signal_worker os sig p) \<longleftrightarrow> Signal os p sig \<noteq> None \<or> Wait os p \<noteq> None))
       \<and> (res (StartMainProcess N os g h (ups @ sig # rest)) = Returned (Some (signal_error sig))
            \<longleftrightarrow> (\<forall>p. Some p \<in> set (pool N os g) \<longrightarrow> Signal os p sig = None \<longrightarrow> Wait os p \<noteq> None))
       \<and> (res (StartMainProcess N os g h (ups @ sig # rest)) \<noteq> Returned (Some (signal_error sig))
            \<longrightarrow> res (StartMainProcess N os g h (ups @ sig # rest)) = Blocked)
       \<and> (\<forall>sig'. signal_error sig' = signal_error sig \<longrightarrow> sig' = sig)"
proof -
  let ?R = "StartMainProcess N os g h (ups @ sig # rest)"
  note sl = signal_loop_shutdown [OF assms, where N = N and os = os and g = g and h = h
      and rest = rest and ts = "prev_tasks N os g" and st = "spawned N os g"]
  from sl have go: "goroutines ?R = prev_tasks N os g @ map (signal_worker os sig) (live (pool N os g))"
    by (simp add: StartMainProcess_prev pool_def)
  from sl have r: "res ?R = (if list_all finished (map (signal_worker os sig) (live (pool N os g)))
              then Returned (Some (signal_error sig)) else Blocked)"
    by (simp add: StartMainProcess_prev pool_def)
  have fin: "list_all finished (map (signal_worker os sig) (live (pool N os g)))
       \<longleftrightarrow> (\<forall>p. Some p \<in> set (pool N os g) \<longrightarrow> Signal os p sig = None \<longrightarrow> Wait os p \<noteq> None)"
    by (auto simp: list_all_iff set_live signal_worker_finished)
  have w: "\<forall>p. Some p \<in> set (pool N os g) \<longrightarrow>
             p \<in> set (live (pool N os g))
             \<and> (\<exists>evs. task_events (signal_worker os sig p) = EvSignal p sig # evs
                      \<and> (\<forall>q s. EvSignal q s \<notin> set evs)
                      \<and> (EvWait p \<in> set evs \<longleftrightarrow> Signal os p sig = None))
             \<and> (finished (signal_worker os sig p) \<longleftrightarrow> Signal os p sig \<noteq> None \<or> Wait os p \<noteq> None)"
    using signal_worker_shape signal_worker_finished by (simp add: set_live)
  have r1: "res ?R = Returned (Some (signal_error sig))
            \<longleftrightarrow> (\<forall>p. Some p \<in> set (pool N os g) \<longrightarrow> Signal os p sig = None \<longrightarrow> Wait os p \<noteq> None)"
    unfolding r fin [symmetric] by simp
  have r2: "res ?R \<noteq> Returned (Some (signal_error sig)) \<longrightarrow> res ?R = Blocked"
    unfolding r by simp
  have inj: "\<forall>sig'. signal_error sig' = signal_error sig \<longrightarrow> sig' = sig"
    by (auto simp: signal_error_def dest: signal_String_inj)
  show ?thesis
    by (intro conjI) (rule go w r1 r2 inj)+
qed

lemma upt4: "[0..<4] = [0, 1, 2, 3::nat]"
  by (simp add: upt_rec)

lemma example_fork_worker01:
  "fst (fork_worker example_names example_os example_globals 0) = Inr (Process 1000)"
  "fst (fork_worker example_names example_os example_globals (Suc 0)) = Inr (Process 1001)"
  by (simp_all add: fork_worker_def forkProcess_def example_os_def)

lemma example_pool:
  "pool example_names example_os example_globals
     = [Some (Process 1000), Some (Process 1001), None, Some (Process 1003)]"
proof -
  let ?p = "pool example_names example_os example_globals"
  have n: "NumCPU example_os = 4" by (simp add: example_os_def)
  note sp = spawned_props [where N = example_names and os = example_os and g = example_globals]
  from sp(2) n have l: "length ?p = 4" by (simp add: pool_def)
  from sp(3) n have nth: "?p ! i = slot_of (fst (fork_worker example_names example_os example_globals i))"
    if "i < 4" for i using that by (simp add: pool_def)
  have "?p = map (\<lambda>i. slot_of (fst (fork_worker example_names example_os example_globals i))) [0..<4]"
    by (rule nth_equalityI) (simp_all add: l nth del: upt_Suc)
  then show ?thesis
    by (simp add: upt4 example_fork_worker example_fork_worker01 slot_of_def)
qed

theorem shutdown_fan_out_witness:
  "set [SIGUSR2] \<subseteq> {SIGUSR2} \<and> shutdown_signal SIGTERM
   \<and> Some (Process 1003) \<in> set (pool example_names example_os example_globals)
   \<and> goroutines (StartMainProcess example_names example_os example_globals example_hooks
        ([SIGUSR2] @ SIGTERM # []))
       = map (signal_worker example_os SIGTERM) [Process 1000, Process 1001, Process 1003]
   \<and> signal_worker example_os SIGTERM (Process 1003)
       = Finished [EvSignal (Process 1003) SIGTERM, EvWait (Process 1003),
                   Printf ''Worker process PID=%d exited with status: %s''
                     [AInt 1003, AStr ''exit status 0'']]
   \<and> res (StartMainProcess example_names example_os example_globals example_hooks
        ([SIGUSR2] @ SIGTERM # []))
       = Returned (Some (ErrorString ''signal received: terminated''))"
proof -
  let ?N = example_names and ?os = example_os and ?g = example_globals
  have u: "set [SIGUSR2] \<subseteq> {SIGUSR2}" by simp
  have s: "shutdown_signal SIGTERM" by (simp add: shutdown_signal_def)
  note t = shutdown_fan_out [OF u s, where N = ?N and os = ?os and g = ?g and h = example_hooks
             and rest = "[]"]
  have m: "Some (Process 1003) \<in> set (pool ?N ?os ?g)" by (simp add: example_pool)
  have pt: "prev_tasks ?N ?os ?g = []"
    by (simp add: prev_tasks_def example_os_def example_names_def entry_key_def entry_value_def)
  have ok: "\<forall>p. Some p \<in> set (pool ?N ?os ?g) \<longrightarrow> Signal ?os p SIGTERM = None \<longrightarrow> Wait ?os p \<noteq> None"
    by (simp add: example_os_def)
  from t have "goroutines (StartMainProcess ?N ?os ?g example_hooks ([SIGUSR2] @ SIGTERM # []))
         = prev_tasks ?N ?os ?g @ map (signal_worker ?os SIGTERM) (live (pool ?N ?os ?g))"
    by blast
  then have go: "goroutines (StartMainProcess ?N ?os ?g example_hooks ([SIGUSR2] @ SIGTERM # []))
       = map (signal_worker ?os SIGTERM) [Process 1000, Process 1001, Process 1003]"
    by (simp add: pt example_pool)
  have sw: "signal_worker ?os SIGTERM (Process 1003)
       = Finished [EvSignal (Process 1003) SIGTERM, EvWait (Process 1003),
                   Printf ''Worker process PID=%d exited with status: %s''
                     [AInt 1003, AStr ''exit status 0'']]"
    by (simp add: signal_worker_def example_os_def)
  from t ok have "res (StartMainProcess ?N ?os ?g example_hooks ([SIGUSR2] @ SIGTERM # []))
       = Returned (Some (signal_error SIGTERM))"
    by blast
  then have r: "res (StartMainProcess ?N ?os ?g example_hooks ([SIGUSR2] @ SIGTERM # []))
       = Returned (Some (ErrorString ''signal received: terminated''))"
    by (simp add: signal_error_def)
  from u s m go sw r show ?thesis by blast
qed

subsection \<open>The signal loop: upgrade\<close>

lemma started_append: "started (a @ b) = started a @ started b"
  by (induction a rule: started.induct) simp_all

lemma started_call_hook: "started (call_hook name fmt p hk) = []"
  by (simp add: call_hook_def split: option.splits hook.splits)

lemma started_forkProcess:
  "started (snd (forkProcess N os n vals)) =
     (if resolves os n then [child_env N (Environ os) vals] else [])"
  by (simp add: forkProcess_def resolves_def Let_def split: sum.splits)

lemma upgrade_started:
  "started (events (upgrade N os g h st)) =
     started (events st) @
     (if resolves os (nfork st) then [child_env N (Environ os) (upgrade_envValues N g)] else [])"
proof -
  have "started (events (upgrade N os g h st)) =
     started (events st) @ started (snd (forkProcess N os (nfork st) (upgrade_envValues N g)))"
    by (simp add: upgrade_def upgrade_envValues_def Let_def started_append started_call_hook
          split: prod.splits sum.splits)
  then show ?thesis by (simp only: started_forkProcess)
qed

lemma signal_loop_upgrade_step:
  "signal_loop N os g h (SIGUSR2 # sigs) ts st =
     signal_loop N os g h sigs ts
       (upgrade N os g h (st \<lparr> events := events st @
          [Printf ''Main process PID=%d recivied signal: %s'' [AInt (pid g), ASig SIGUSR2]] \<rparr>))"
  by (simp add: Let_def)

lemma signal_loop_started:
  assumes "set sigs \<subseteq> {SIGUSR2}"
  shows "started (main_events (signal_loop N os g h sigs ts st)) =
           started (events st) @
           concat (map (\<lambda>n. if resolves os n then [child_env N (Environ os) (upgrade_envValues N g)] else [])
                     [nfork st ..< nfork st + length sigs])"
  using assms
proof (induction sigs arbitrary: st)
  case Nil
  then show ?case by simp
next
  case (Cons s sigs)
  then have s: "s = SIGUSR2" and sigs: "set sigs \<subseteq> {SIGUSR2}" by auto
  let ?st1 = "st \<lparr> events := events st @
          [Printf ''Main process PID=%d recivied signal: %s'' [AInt (pid g), ASig SIGUSR2]] \<rparr>"
  have u: "[nfork st ..< nfork st + length (s # sigs)] = nfork st # [Suc (nfork st) ..< Suc (nfork st) + length sigs]"
    by (subst upt_rec) simp
  have st1: "started (events (upgrade N os g h ?st1)) =
     started (events st) @
     (if resolves os (nfork st) then [child_env N (Environ os) (upgrade_envValues N g)] else [])"
    by (simp add: upgrade_started started_append)
  let ?F = "\<lambda>n. if resolves os n then [child_env N (Environ os) (upgrade_envValues N g)] else []"
  have nf: "nfork (upgrade N os g h ?st1) = Suc (nfork st)"
    by (simp add: upgrade_fields)
  have "started (main_events (signal_loop N os g h (s # sigs) ts st)) =
          started (main_events (signal_loop N os g h sigs ts (upgrade N os g h ?st1)))"
    by (simp only: s signal_loop_upgrade_step)
  also have "\<dots> = started (events (upgrade N os g h ?st1)) @
          concat (map ?F [Suc (nfork st) ..< Suc (nfork st) + length sigs])"
    by (simp only: Cons.IH [OF sigs] nf)
  also have "\<dots> = started (events st) @
          concat (map ?F (nfork st # [Suc (nfork st) ..< Suc (nfork st) + length sigs]))"
    by (simp only: st1) simp
  finally show ?case by (simp only: u)
qed

lemma signal_loop_goroutines_prefix:
  "\<exists>more. goroutines (signal_loop N os g h sigs ts st) = ts @ more"
  by (induction sigs arbitrary: st) (auto simp: Let_def split: prod.splits)

lemma Getenv_upgrade_envValues:
  assumes "wf_names N"
  shows "Getenv (upgrade_envValues N g) (envPrevPPID N) = itoa (pid g)"
    and "Getenv (upgrade_envValues N g) (envPPID N) = []"
  using wf_namesD [OF assms]
  by (simp_all add: upgrade_envValues_def entry_key_mk entry_value_mk)

lemma kill_prev_parsed:
  assumes "Atoi s = Inr q"
  shows "kill_prev os g s =
     Finished (EvSleep prevMainProcessGraceInterval # EvFindProcess q #
       (case FindProcess os q of
          Inl err \<Rightarrow>
            [Printf ''Main process PID=%d could not find process for previous PID=%d: %s''
               [AInt (pid g), AInt q, AErr err]]
        | Inr prevProcess \<Rightarrow>
            EvSignal prevProcess SIGTERM #
            (case Signal os prevProcess SIGTERM of
               Some err \<Rightarrow>
                 [Printf ''Main process PID=%d could not send SIGTERM to previous PID=%d: %s''
                    [AInt (pid g), AInt q, AErr err]]
             | None \<Rightarrow> [])))"
  using assms by (simp add: kill_prev_def)

lemma kill_prev_unparsed:
  assumes "Atoi s = Inl err"
  shows "kill_prev os g s =
     Finished [EvSleep prevMainProcessGraceInterval,
       Printf ''Main process PID=%d could not parse previous PID: %s'' [AInt (pid g), AErr err]]"
  using assms by (simp add: kill_prev_def)

lemma kill_prev_sleeps_first:
  "\<exists>evs. kill_prev os g s = Finished (EvSleep prevMainProcessGraceInterval # evs)"
  by (simp add: kill_prev_def)

text \<open>
  C3: an upgrade request makes the loop run the upgrade case once and go on with the next
  signal. The case calls \<open>forkProcess\<close> exactly once, with the process id of this supervisor
  as predecessor: one \<open>os.StartProcess\<close> with the sanitized environment and that value (none
  when the executable or the directory cannot be found), and the pool is unchanged. On
  upgrade requests alone \<open>StartMainProcess\<close> does not return, and has started one successor
  for each; it returns only on a signal of the shutdown class. The successor reads the
  predecessor's id from its environment and no parent id, so it is a main process, and
  starts the goroutine that first sleeps for the grace interval of five seconds, then looks
  the predecessor up and sends it \<open>SIGTERM\<close>; when the process cannot be found or signalled
  it logs that, and when the value does not parse it logs that after the sleep, and in
  every case the goroutine ends.
\<close>

theorem upgrade_protocol:
  assumes "wf_names N" and "0 \<le> pid g" and "pid g < 2 ^ 63"
  shows "(\<forall>sigs ts st.
            signal_loop N os g h (SIGUSR2 # sigs) ts st =
              signal_loop N os g h sigs ts
                (upgrade N os g h (st \<lparr> events := events st @
                   [Printf ''Main process PID=%d recivied signal: %s'' [AInt (pid g), ASig SIGUSR2]] \<rparr>)))
       \<and> (\<forall>st. nfork (upgrade N os g h st) = Suc (nfork st)
               \<and> workers (upgrade N os g h st) = workers st
               \<and> started (events (upgrade N os g h st)) =
                   started (events st) @
                   (if resolves os (nfork st)
                    then [child_env N (Environ os) (upgrade_envValues N g)] else []))
       \<and> (\<forall>sigs. set sigs \<subseteq> {SIGUSR2} \<longrightarrow>
             res (StartMainProcess N os g h sigs) = Blocked
             \<and> started (main_events (StartMainProcess N os g h sigs)) =
                 started (events (spawned N os g)) @
                 concat (map (\<lambda>n. if resolves os n
                                   then [child_env N (Environ os) (upgrade_envValues N g)] else [])
                           [NumCPU os ..< NumCPU os + length sigs]))
       \<and> (\<forall>sigs. res (StartMainProcess N os g h sigs) \<noteq> Blocked \<longrightarrow>
             (\<exists>sig\<in>set sigs. shutdown_signal sig))
       \<and> Getenv (child_env N (Environ os) (upgrade_envValues N g)) (envPrevPPID N) = itoa (pid g)
       \<and> Getenv (child_env N (Environ os) (upgrade_envValues N g)) (envPPID N) = []
       \<and> (\<forall>os' g' h' sigs'.
             Environ os' = child_env N (Environ os) (upgrade_envValues N g) \<longrightarrow>
             (\<exists>more. goroutines (StartMainProcess N os' g' h' sigs')
                       = kill_prev os' g' (itoa (pid g)) # more)
             \<and> kill_prev os' g' (itoa (pid g)) =
                 Finished (EvSleep prevMainProcessGraceInterval # EvFindProcess (pid g) #
                   (case FindProcess os' (pid g) of
                      Inl err \<Rightarrow>
                        [Printf ''Main process PID=%d could not find process for previous PID=%d: %s''
                           [AInt (pid g'), AInt (pid g), AErr err]]
                    | Inr prevProcess \<Rightarrow>
                        EvSignal prevProcess SIGTERM #
                        (case Signal os' prevProcess SIGTERM of
                           Some err \<Rightarrow>
                             [Printf ''Main process PID=%d could not send SIGTERM to previous PID=%d: %s''
                                [AInt (pid g'), AInt (pid g), AErr err]]
                         | None \<Rightarrow> []))))
       \<and> (\<forall>os' g' s err. Atoi s = Inl err \<longrightarrow>
             kill_prev os' g' s =
               Finished [EvSleep prevMainProcessGraceInterval,
                 Printf ''Main process PID=%d could not parse previous PID: %s''
                   [AInt (pid g'), AErr err]])
       \<and> (\<forall>os' g' s. \<exists>evs. kill_prev os' g' s = Finished (EvSleep prevMainProcessGraceInterval # evs))
       \<and> prevMainProcessGraceInterval = 5 * 1000000000"
proof -
  let ?env = "child_env N (Environ os) (upgrade_envValues N g)"
  note wf = wf_namesD [OF assms(1)]
  have c1: "\<forall>sigs ts st.
            signal_loop N os g h (SIGUSR2 # sigs) ts st =
              signal_loop N os g h sigs ts
                (upgrade N os g h (st \<lparr> events := events st @
                   [Printf ''Main process PID=%d recivied signal: %s'' [AInt (pid g), ASig SIGUSR2]] \<rparr>))"
    by (simp only: signal_loop_upgrade_step) simp
  have c2: "\<forall>st. nfork (upgrade N os g h st) = Suc (nfork st)
               \<and> workers (upgrade N os g h st) = workers st
               \<and> started (events (upgrade N os g h st)) =
                   started (events st) @
                   (if resolves os (nfork st) then [?env] else [])"
    using upgrade_fields upgrade_started by blast
  have c3: "\<forall>sigs. set sigs \<subseteq> {SIGUSR2} \<longrightarrow>
             res (StartMainProcess N os g h sigs) = Blocked
             \<and> started (main_events (StartMainProcess N os g h sigs)) =
                 started (events (spawned N os g)) @
                 concat (map (\<lambda>n. if resolves os n then [?env] else [])
                           [NumCPU os ..< NumCPU os + length sigs])"
  proof (intro allI impI conjI)
    fix sigs assume s: "set sigs \<subseteq> {SIGUSR2}"
    show "res (StartMainProcess N os g h sigs) = Blocked"
      using signal_loop_upgrades(1) [OF s] by (simp add: StartMainProcess_prev)
    have "nfork (spawned N os g) = NumCPU os" by (rule spawned_props(1))
    with signal_loop_started [OF s, where N = N and os = os and g = g and h = h
        and ts = "prev_tasks N os g" and st = "spawned N os g"]
    show "started (main_events (StartMainProcess N os g h sigs)) =
                 started (events (spawned N os g)) @
                 concat (map (\<lambda>n. if resolves os n then [?env] else [])
                           [NumCPU os ..< NumCPU os + length sigs])"
      by (simp add: StartMainProcess_prev)
  qed
  have c4: "\<forall>sigs. res (StartMainProcess N os g h sigs) \<noteq> Blocked \<longrightarrow>
             (\<exists>sig\<in>set sigs. shutdown_signal sig)"
    using signal_loop_returns by (simp add: StartMainProcess_prev)
  have c5: "Getenv ?env (envPrevPPID N) = itoa (pid g)"
    using wf by (simp add: Getenv_child_env Getenv_upgrade_envValues [OF assms(1)])
  have c6: "Getenv ?env (envPPID N) = []"
    using wf by (simp add: Getenv_child_env Getenv_upgrade_envValues [OF assms(1)])
  have at: "Atoi (itoa (pid g)) = Inr (pid g)"
    using assms(2,3) by (rule Atoi_itoa)
  have c7: "\<forall>os' g' h' sigs'.
             Environ os' = ?env \<longrightarrow>
             (\<exists>more. goroutines (StartMainProcess N os' g' h' sigs')
                       = kill_prev os' g' (itoa (pid g)) # more)
             \<and> kill_prev os' g' (itoa (pid g)) =
                 Finished (EvSleep prevMainProcessGraceInterval # EvFindProcess (pid g) #
                   (case FindProcess os' (pid g) of
                      Inl err \<Rightarrow>
                        [Printf ''Main process PID=%d could not find process for previous PID=%d: %s''
                           [AInt (pid g'), AInt (pid g), AErr err]]
                    | Inr prevProcess \<Rightarrow>
                        EvSignal prevProcess SIGTERM #
                        (case Signal os' prevProcess SIGTERM of
                           Some err \<Rightarrow>
                             [Printf ''Main process PID=%d could not send SIGTERM to previous PID=%d: %s''
                                [AInt (pid g'), AInt (pid g), AErr err]]
                         | None \<Rightarrow> [])))"
  proof (intro allI impI conjI)
    fix os' :: os and g' :: globals and h' :: hooks and sigs' :: "signal list"
    assume e: "Environ os' = ?env"
    have pt: "prev_tasks N os' g' = [kill_prev os' g' (itoa (pid g))]"
      by (simp add: prev_tasks_def e c5 itoa_nonempty)
    from signal_loop_goroutines_prefix [where N = N and os = os' and g = g' and h = h'
        and sigs = sigs' and ts = "prev_tasks N os' g'" and st = "spawned N os' g'"]
    show "\<exists>more. goroutines (StartMainProcess N os' g' h' sigs')
                       = kill_prev os' g' (itoa (pid g)) # more"
      by (simp add: StartMainProcess_prev pt)
    show "kill_prev os' g' (itoa (pid g)) =
                 Finished (EvSleep prevMainProcessGraceInterval # EvFindProcess (pid g) #
                   (case FindProcess os' (pid g) of
                      Inl err \<Rightarrow>
                        [Printf ''Main process PID=%d could not find process for previous PID=%d: %s''
                           [AInt (pid g'), AInt (pid g), AErr err]]
                    | Inr prevProcess \<Rightarrow>
                        EvSignal prevProcess SIGTERM #
                        (case Signal os' prevProcess SIGTERM of
                           Some err \<Rightarrow>
                             [Printf ''Main process PID=%d could not send SIGTERM to previous PID=%d: %s''
                                [AInt (pid g'), AInt (pid g), AErr err]]
                         | None \<Rightarrow> [])))"
      by (rule kill_prev_parsed [OF at])
  qed
  have c8: "\<forall>os' g' s err. Atoi s = Inl err \<longrightarrow>
             kill_prev os' g' s =
               Finished [EvSleep prevMainProcessGraceInterval,
                 Printf ''Main process PID=%d could not parse previous PID: %s''
                   [AInt (pid g'), AErr err]]"
    using kill_prev_unparsed by blast
  have c9: "\<forall>os' g' s. \<exists>evs. kill_prev os' g' s = Finished (EvSleep prevMainProcessGraceInterval # evs)"
    using kill_prev_sleeps_first by blast
  have c10: "prevMainProcessGraceInterval = 5 * 1000000000"
    by (simp add: prevMainProcessGraceInterval_def)
  show ?thesis
    by (intro conjI) (rule c1 c2 c3 c4 c5 c6 c7 c8 c9 c10)+
qed

lemma example_successor_env:
  "child_env example_names (Environ example_os) (upgrade_envValues example_names example_globals)
     = [''PATH=/bin'', ''HOME=/root'', ''GOPHERPACK_PREV_PPID=4242'']"
  by (simp add: child_env_def upgrade_envValues_def example_os_def example_names_def
        example_globals_eq HasPrefix_def itoa_def nat_digits.simps digit_char_def)

theorem upgrade_protocol_witness:
  "wf_names example_names \<and> 0 \<le> pid example_globals \<and> pid example_globals < 2 ^ 63
   \<and> set [SIGUSR2, SIGUSR2] \<subseteq> {SIGUSR2}
   \<and> res (StartMainProcess example_names example_os example_globals example_hooks
             [SIGUSR2, SIGUSR2]) = Blocked
   \<and> started (main_events (StartMainProcess example_names example_os example_globals example_hooks
             [SIGUSR2, SIGUSR2]))
       = started (events (spawned example_names example_os example_globals)) @
         [[''PATH=/bin'', ''HOME=/root'', ''GOPHERPACK_PREV_PPID=4242''],
          [''PATH=/bin'', ''HOME=/root'', ''GOPHERPACK_PREV_PPID=4242'']]
   \<and> Environ (example_os \<lparr> Environ := [''PATH=/bin'', ''HOME=/root'', ''GOPHERPACK_PREV_PPID=4242''] \<rparr>)
       = child_env example_names (Environ example_os) (upgrade_envValues example_names example_globals)
   \<and> kill_prev (example_os \<lparr> Environ := [''PATH=/bin'', ''HOME=/root'', ''GOPHERPACK_PREV_PPID=4242''] \<rparr>)
        \<lparr> pid = 5000, isMainProcess = True, workerCpuCore = [] \<rparr> ''4242''
       = Finished [EvSleep 5000000000, EvFindProcess 4242, EvSignal (Process 4242) SIGTERM]
   \<and> Atoi ''4x'' = Inl (NumError ''Atoi'' ''4x'' ErrSyntax)
   \<and> kill_prev example_os example_globals ''4x''
       = Finished [EvSleep 5000000000,
           Printf ''Main process PID=%d could not parse previous PID: %s''
             [AInt 4242, AErr (NumError ''Atoi'' ''4x'' ErrSyntax)]]"
proof -
  let ?N = example_names and ?os = example_os and ?g = example_globals
  let ?env = "[''PATH=/bin'', ''HOME=/root'', ''GOPHERPACK_PREV_PPID=4242'']"
  let ?os' = "example_os \<lparr> Environ := ?env \<rparr>"
  let ?g' = "\<lparr> pid = 5000, isMainProcess = True, workerCpuCore = [] \<rparr>"
  have b: "0 \<le> pid ?g" "pid ?g < 2 ^ 63" by (simp_all add: example_globals_eq)
  note t = upgrade_protocol [OF example_wf b, where os = ?os and h = example_hooks]
  have u: "set [SIGUSR2, SIGUSR2] \<subseteq> {SIGUSR2}" by simp
  have e: "Environ ?os' = child_env ?N (Environ ?os) (upgrade_envValues ?N ?g)"
    by (simp add: example_successor_env)
  have a: "Atoi ''4x'' = Inl (NumError ''Atoi'' ''4x'' ErrSyntax)"
    by (simp add: Atoi_def is_digit_def digit_val_def)
  have rs: "resolves ?os n" for n by (simp add: resolves_def example_os_def)
  have up: "[NumCPU ?os ..< NumCPU ?os + length [SIGUSR2, SIGUSR2]] = [4, 5]"
    by (simp add: example_os_def upt_rec)
  have it: "itoa 4242 = ''4242''"
    by (simp add: itoa_def nat_digits.simps digit_char_def)
  have gi: "prevMainProcessGraceInterval = 5000000000"
    by (simp add: prevMainProcessGraceInterval_def)
  from t u have r: "res (StartMainProcess ?N ?os ?g example_hooks [SIGUSR2, SIGUSR2]) = Blocked"
    by blast
  from t u have "started (main_events (StartMainProcess ?N ?os ?g example_hooks [SIGUSR2, SIGUSR2])) =
                 started (events (spawned ?N ?os ?g)) @
                 concat (map (\<lambda>n. if resolves ?os n
                                   then [child_env ?N (Environ ?os) (upgrade_envValues ?N ?g)] else [])
                           [NumCPU ?os ..< NumCPU ?os + length [SIGUSR2, SIGUSR2]])"
    by blast
  then have s: "started (main_events (StartMainProcess ?N ?os ?g example_hooks [SIGUSR2, SIGUSR2]))
       = started (events (spawned ?N ?os ?g)) @ [?env, ?env]"
    by (simp only: up rs example_successor_env) simp
  from t e have "kill_prev ?os' ?g' (itoa (pid ?g)) =
                 Finished (EvSleep prevMainProcessGraceInterval # EvFindProcess (pid ?g) #
                   (case FindProcess ?os' (pid ?g) of
                      Inl err \<Rightarrow>
                        [Printf ''Main process PID=%d could not find process for previous PID=%d: %s''
                           [AInt (pid ?g'), AInt (pid ?g), AErr err]]
                    | Inr prevProcess \<Rightarrow>
                        EvSignal prevProcess SIGTERM #
                        (case Signal ?os' prevProcess SIGTERM of
                           Some err \<Rightarrow>
                             [Printf ''Main process PID=%d could not send SIGTERM to previous PID=%d: %s''
                                [AInt (pid ?g'), AInt (pid ?g), AErr err]]
                         | None \<Rightarrow> [])))"
    by blast
  then have k: "kill_prev ?os' ?g' ''4242''
       = Finished [EvSleep 5000000000, EvFindProcess 4242, EvSignal (Process 4242) SIGTERM]"
    by (simp add: it gi example_os_def example_globals_eq)
  from t a have "kill_prev ?os ?g ''4x'' =
               Finished [EvSleep prevMainProcessGraceInterval,
                 Printf ''Main process PID=%d could not parse previous PID: %s''
                   [AInt (pid ?g), AErr (NumError ''Atoi'' ''4x'' ErrSyntax)]]"
    by blast
  then have k2: "kill_prev ?os ?g ''4x''
       = Finished [EvSleep 5000000000,
           Printf ''Main process PID=%d could not parse previous PID: %s''
             [AInt 4242, AErr (NumError ''Atoi'' ''4x'' ErrSyntax)]]"
    by (simp add: gi example_globals_eq)
  show ?thesis
    by (intro conjI) (rule example_wf b u r s e k a k2)+
qed

end
